theory Spec2Isabelle
  imports Main "HOL-Library.Word"
begin

unbundle bit_operations_syntax

section \<open>Machine types and constants of applemidi.cpp\<close>

type_synonym u8 = "8 word"
type_synonym u16 = "16 word"
type_synonym u32 = "32 word"
type_synonym u64 = "64 word"

text \<open>
  \<open>CIPAddress\<close> is a class of the network library; only its four address bytes matter
  here, held as one 32-bit value.
\<close>

type_synonym CIPAddress = "32 word"

definition ControlPort :: u16 where
  "ControlPort = 5000"

definition MIDIPort :: u16 where
  "MIDIPort = ControlPort + 1"

definition AppleMIDISignature :: u16 where
  "AppleMIDISignature = 0xFFFF"

definition AppleMIDIVersion :: u8 where
  "AppleMIDIVersion = 2"

definition RTPMIDIPayloadType :: u8 where
  "RTPMIDIPayloadType = 0x61"

definition RTPMIDIVersion :: u8 where
  "RTPMIDIVersion = 2"

text \<open>Both periods are compared with differences of 64-bit clock values.\<close>

definition SyncTimeout :: u64 where
  "SyncTimeout = 60 * 10000"

definition ReceiverFeedbackPeriod :: u64 where
  "ReceiverFeedbackPeriod = 1 * 10000"

text \<open>The bytes of a C string literal, without its terminating NUL.\<close>

definition bytes_of :: "string \<Rightarrow> u8 list" where
  "bytes_of s = map of_char s"

definition CommandWord :: "string \<Rightarrow> u16" where
  "CommandWord Command = push_bit 8 (of_char (Command ! 0)) OR of_char (Command ! 1)"

definition Invitation :: u16 where
  "Invitation = CommandWord ''IN''"

definition InvitationAccepted :: u16 where
  "InvitationAccepted = CommandWord ''OK''"

definition Sync :: u16 where
  "Sync = CommandWord ''CK''"

definition ReceiverFeedback :: u16 where
  "ReceiverFeedback = CommandWord ''RS''"

definition EndSession :: u16 where
  "EndSession = CommandWord ''BY''"

section \<open>Packed structures\<close>

record TAppleMIDIInvitation =
  inv_nSignature :: u16
  inv_nCommand :: u16
  inv_nVersion :: u32
  inv_nInitiatorToken :: u32
  inv_nSSRC :: u32
  inv_Name :: "u8 list"

record TAppleMIDIEndSession =
  bye_nSignature :: u16
  bye_nCommand :: u16
  bye_nVersion :: u32
  bye_nInitiatorToken :: u32
  bye_nSSRC :: u32

text \<open>\<open>ParseSyncPacket\<close> never writes \<open>nPadding\<close>, so the decoded frame has no such field.\<close>

record TAppleMIDISync =
  sync_nSignature :: u16
  sync_nCommand :: u16
  sync_nSSRC :: u32
  sync_nCount :: u8
  sync_nTimestamps :: "u64 list"

record TRTPHeader =
  rtp_nFlags :: u16
  rtp_nSequence :: u16
  rtp_nTimestamp :: u32
  rtp_nSSRC :: u32

section \<open>Reading the receive arrays\<close>

text \<open>
  A buffer is the whole array a \<open>pBuffer\<close> points into (\<open>m_ControlBuffer\<close> or
  \<open>m_MIDIBuffer\<close>), not only the \<open>nSize\<close> bytes of the last datagram: the decoders
  read where the wire format says, and the bytes past the datagram are whatever the array
  held before. A read past the end of the array is undefined in C++; the model gives it
  the outcome \<open>Overrun\<close>. \<open>Reject\<close> is the decoder returning \<open>false\<close>, \<open>Accept\<close> is
  \<open>true\<close> with the values written through the out-pointers.
\<close>

datatype 'a parse = Overrun | Reject | Accept 'a

definition peek :: "u8 list \<Rightarrow> nat \<Rightarrow> u8 option" where
  "peek p i = (if i < length p then Some (p ! i) else None)"

text \<open>
  \<open>ntohs(*(const u16*)(p + i))\<close> and its 32- and 64-bit siblings: the value whose
  big-endian bytes lie at \<open>p + i\<close>.
\<close>

definition ntohs_at :: "u8 list \<Rightarrow> nat \<Rightarrow> u16 option" where
  "ntohs_at p i =
     (if i + 2 \<le> length p
      then Some (push_bit 8 (ucast (p ! i)) OR ucast (p ! (i + 1)))
      else None)"

definition ntohl_at :: "u8 list \<Rightarrow> nat \<Rightarrow> u32 option" where
  "ntohl_at p i =
     (if i + 4 \<le> length p
      then Some (push_bit 24 (ucast (p ! i)) OR push_bit 16 (ucast (p ! (i + 1)))
                 OR push_bit 8 (ucast (p ! (i + 2))) OR ucast (p ! (i + 3)))
      else None)"

definition ntohll_at :: "u8 list \<Rightarrow> nat \<Rightarrow> u64 option" where
  "ntohll_at p i =
     (if i + 8 \<le> length p
      then Some (push_bit 56 (ucast (p ! i)) OR push_bit 48 (ucast (p ! (i + 1)))
                 OR push_bit 40 (ucast (p ! (i + 2))) OR push_bit 32 (ucast (p ! (i + 3)))
                 OR push_bit 24 (ucast (p ! (i + 4))) OR push_bit 16 (ucast (p ! (i + 5)))
                 OR push_bit 8 (ucast (p ! (i + 6))) OR ucast (p ! (i + 7)))
      else None)"

definition reading :: "'a option \<Rightarrow> ('a \<Rightarrow> 'b parse) \<Rightarrow> 'b parse" where
  "reading r k = (case r of None \<Rightarrow> Overrun | Some v \<Rightarrow> k v)"

text \<open>
  \<open>strncpy(dst, src, n)\<close>, with \<open>src\<close> the array from the source pointer to its end:
  \<open>dst\<close> receives the bytes before the first NUL among the first \<open>n\<close>, padded with
  NULs to \<open>n\<close> bytes. When there is neither a NUL nor \<open>n\<close> bytes before the array ends,
  the copy reads past it.
\<close>

definition strncpy :: "u8 list \<Rightarrow> nat \<Rightarrow> u8 list" where
  "strncpy src n =
     (let str = takeWhile (\<lambda>c. c \<noteq> 0) (take n src)
      in str @ replicate (n - length str) 0)"

definition strncpy_overruns :: "u8 list \<Rightarrow> nat \<Rightarrow> bool" where
  "strncpy_overruns src n =
     (let str = takeWhile (\<lambda>c. c \<noteq> 0) (take n src)
      in length str < n \<and> length src \<le> length str)"

definition strlen :: "u8 list \<Rightarrow> nat" where
  "strlen p = length (takeWhile (\<lambda>c. c \<noteq> 0) p)"

text \<open>A string literal as it lies in memory, with its terminating NUL.\<close>

definition c_str :: "string \<Rightarrow> u8 list" where
  "c_str s = bytes_of s @ [0]"

section \<open>Writing frames\<close>

text \<open>
  The bytes in memory of a field initialised with \<open>htons\<close>, \<open>htonl\<close> or \<open>htonll\<close>:
  most significant byte first.
\<close>

definition htons :: "u16 \<Rightarrow> u8 list" where
  "htons w = [ucast (drop_bit 8 w), ucast w]"

definition htonl :: "u32 \<Rightarrow> u8 list" where
  "htonl w = [ucast (drop_bit 24 w), ucast (drop_bit 16 w), ucast (drop_bit 8 w), ucast w]"

definition htonll :: "u64 \<Rightarrow> u8 list" where
  "htonll w =
     [ucast (drop_bit 56 w), ucast (drop_bit 48 w), ucast (drop_bit 40 w),
      ucast (drop_bit 32 w), ucast (drop_bit 24 w), ucast (drop_bit 16 w),
      ucast (drop_bit 8 w), ucast w]"

section \<open>Decoders\<close>

definition ParseInvitationPacket :: "u8 list \<Rightarrow> nat \<Rightarrow> TAppleMIDIInvitation parse" where
  "ParseInvitationPacket pBuffer nSize =
     (let nSizeWithoutName = (272::nat) - 256 in
      if nSize < nSizeWithoutName then Reject
      else reading (ntohs_at pBuffer 0) (\<lambda>nSignature.
        if nSignature \<noteq> AppleMIDISignature then Reject
        else reading (ntohs_at pBuffer 2) (\<lambda>nCommand.
          if nCommand \<noteq> Invitation then Reject
          else reading (ntohl_at pBuffer 4) (\<lambda>nVersion.
            if nVersion \<noteq> ucast AppleMIDIVersion then Reject
            else reading (ntohl_at pBuffer 8) (\<lambda>nInitiatorToken.
              reading (ntohl_at pBuffer 12) (\<lambda>nSSRC.
                if nSize > nSizeWithoutName \<and> strncpy_overruns (drop 16 pBuffer) 256
                then Overrun
                else Accept \<lparr>inv_nSignature = nSignature, inv_nCommand = nCommand,
                             inv_nVersion = nVersion, inv_nInitiatorToken = nInitiatorToken,
                             inv_nSSRC = nSSRC,
                             inv_Name = (if nSize > nSizeWithoutName
                                         then strncpy (drop 16 pBuffer) 256
                                         else strncpy (c_str ''<unknown>'') 256)\<rparr>))))))"

definition ParseEndSessionPacket :: "u8 list \<Rightarrow> nat \<Rightarrow> TAppleMIDIEndSession parse" where
  "ParseEndSessionPacket pBuffer nSize =
     (if nSize < 16 then Reject
      else reading (ntohs_at pBuffer 0) (\<lambda>nSignature.
        if nSignature \<noteq> AppleMIDISignature then Reject
        else reading (ntohs_at pBuffer 2) (\<lambda>nCommand.
          if nCommand \<noteq> EndSession then Reject
          else reading (ntohl_at pBuffer 4) (\<lambda>nVersion.
            if nVersion \<noteq> ucast AppleMIDIVersion then Reject
            else reading (ntohl_at pBuffer 8) (\<lambda>nInitiatorToken.
              reading (ntohl_at pBuffer 12) (\<lambda>nSSRC.
                Accept \<lparr>bye_nSignature = nSignature, bye_nCommand = nCommand,
                        bye_nVersion = nVersion, bye_nInitiatorToken = nInitiatorToken,
                        bye_nSSRC = nSSRC\<rparr>))))))"

definition ParseSyncPacket :: "u8 list \<Rightarrow> nat \<Rightarrow> TAppleMIDISync parse" where
  "ParseSyncPacket pBuffer nSize =
     (if nSize \<noteq> 36 then Reject
      else reading (ntohs_at pBuffer 0) (\<lambda>nSignature.
        if nSignature \<noteq> AppleMIDISignature then Reject
        else reading (ntohs_at pBuffer 2) (\<lambda>nCommand.
          if nCommand \<noteq> Sync then Reject
          else reading (ntohl_at pBuffer 4) (\<lambda>nSSRC.
            reading (peek pBuffer 8) (\<lambda>nCount.
              reading (ntohll_at pBuffer 12) (\<lambda>t0.
                reading (ntohll_at pBuffer 20) (\<lambda>t1.
                  reading (ntohll_at pBuffer 28) (\<lambda>t2.
                    Accept \<lparr>sync_nSignature = nSignature, sync_nCommand = nCommand,
                            sync_nSSRC = nSSRC, sync_nCount = nCount,
                            sync_nTimestamps = [t0, t1, t2]\<rparr>))))))))"

text \<open>
  The SysEx-boundary fixup at the end of \<open>ParseMIDIPacket\<close>: from the payload pointer (an
  offset into the array), the 16-bit length and the head and tail bytes read, the pointer
  and length handed to the caller. The subtractions are those of a \<open>u16\<close> and wrap.
\<close>

definition sysex_fixup :: "nat \<Rightarrow> u16 \<Rightarrow> u8 \<Rightarrow> u8 \<Rightarrow> nat \<times> u16" where
  "sysex_fixup pMIDIData nMIDIDataSize nHead nTail =
     (if nHead = 0xF0 \<and> nTail = 0xF0 then (pMIDIData, nMIDIDataSize - 1)
      else if nHead = 0xF7 \<and> nTail = 0xF0 then (pMIDIData + 1, nMIDIDataSize - 2)
      else if nHead = 0xF7 \<and> nTail = 0xF7 then (pMIDIData + 1, nMIDIDataSize - 1)
      else if nHead = 0xF7 \<and> nTail = 0xF4 then (pMIDIData, 1)
      else (pMIDIData, nMIDIDataSize))"

text \<open>
  The variable-length header at offset 12: the offset of the first payload byte and the
  declared payload length (4 bits, or 12 bits when the B flag is set).
\<close>

definition midi_list :: "u8 list \<Rightarrow> (nat \<times> u16) option" where
  "midi_list pBuffer =
     (case peek pBuffer 12 of
        None \<Rightarrow> None
      | Some nHeader \<Rightarrow>
          if nHeader AND push_bit 7 1 \<noteq> 0
          then (case peek pBuffer 13 of
                  None \<Rightarrow> None
                | Some lo \<Rightarrow> Some (14, push_bit 8 (ucast (nHeader AND 0x0F)) OR ucast lo))
          else Some (13, ucast (nHeader AND 0x0F)))"

text \<open>
  \<open>ParseMIDIPacket\<close> never looks at \<open>nSize\<close>, and leaves \<open>pOutPacket->nHeader\<close> unwritten:
  the result is the RTP header, the offset of \<open>*pOutMIDIData\<close> in the array and
  \<open>*pOutMIDIDataSize\<close>.
\<close>

definition ParseMIDIPacket :: "u8 list \<Rightarrow> nat \<Rightarrow> (TRTPHeader \<times> nat \<times> nat) parse" where
  "ParseMIDIPacket pBuffer nSize =
     reading (ntohs_at pBuffer 0) (\<lambda>nRTPFlags.
       if drop_bit 14 nRTPFlags AND 0x03 \<noteq> ucast RTPMIDIVersion then Reject
       else if drop_bit 8 nRTPFlags AND 0x0F \<noteq> 0 then Reject
       else if nRTPFlags AND 0xFF \<noteq> ucast RTPMIDIPayloadType then Reject
       else reading (ntohs_at pBuffer 2) (\<lambda>nSequence.
         reading (ntohl_at pBuffer 4) (\<lambda>nTimestamp.
           reading (ntohl_at pBuffer 8) (\<lambda>nSSRC.
             reading (midi_list pBuffer) (\<lambda>(pMIDIData, nMIDIDataSize).
               reading (peek pBuffer pMIDIData) (\<lambda>nHead.
                 reading (peek pBuffer (pMIDIData + unat nMIDIDataSize - 1)) (\<lambda>nTail.
                   case sysex_fixup pMIDIData nMIDIDataSize nHead nTail of
                     (pOutMIDIData, nOutMIDIDataSize) \<Rightarrow>
                       Accept (\<lparr>rtp_nFlags = nRTPFlags, rtp_nSequence = nSequence,
                                rtp_nTimestamp = nTimestamp, rtp_nSSRC = nSSRC\<rparr>,
                               pOutMIDIData, unat nOutMIDIDataSize))))))))"

section \<open>The participant\<close>

datatype TState = ControlInvitation | MIDIInvitation | Connected

text \<open>
  The members of \<open>CAppleMIDIParticipant\<close> in the order of the header. The receive handler
  is a function pointer: the state records whether one is registered, and a call of it is
  an action carrying the bytes it is handed.
\<close>

record CAppleMIDIParticipant =
  m_InitiatorIPAddress :: CIPAddress
  m_nInitiatorControlPort :: u16
  m_nInitiatorMIDIPort :: u16
  m_ControlBuffer :: "u8 list"
  m_MIDIBuffer :: "u8 list"
  m_nControlResult :: int
  m_nMIDIResult :: int
  m_pReceiveHandler :: bool
  m_State :: TState
  m_nInitiatorToken :: u32
  m_nInitiatorSSRC :: u32
  m_nSSRC :: u32
  m_nLastMIDISequenceNumber :: u32
  m_nOffsetEstimate :: u64
  m_nLastSyncTime :: u64
  m_nSequence :: u16
  m_nLastFeedbackSequence :: u16
  m_nLastFeedbackTime :: u64

datatype CSocket = m_pControlSocket | m_pMIDISocket

text \<open>
  What the participant does to its collaborators: a \<open>SendTo\<close> on a socket (address, port,
  bytes), attempted whatever its result, and a call of the receive handler.
\<close>

datatype action =
    SendTo CSocket CIPAddress u16 "u8 list"
  | ReceiveHandler "u8 list"

text \<open>
  What the collaborators answer during one iteration of \<open>Run\<close>. Each call site of
  \<open>GetSyncClock\<close> and each sender runs at most once per iteration, so the clock readings
  and the results of \<open>SendTo\<close> are given per call site.
\<close>

datatype clock_read =
    ClkControlAccepted
  | ClkMIDIAccepted
  | ClkMIDITimeout
  | ClkSyncReply
  | ClkSyncAccepted
  | ClkTick

datatype send_call = SendAccept | SendSync | SendFeedback

datatype received = WouldBlock | Failed | Datagram "u8 list" CIPAddress u16

record env =
  ControlReceive :: received
  MIDIReceive :: received
  GetNumber :: u32
  GetSyncClock :: "clock_read \<Rightarrow> u64"
  SendToResult :: "send_call \<Rightarrow> int"

text \<open>
  \<open>Fault\<close>: a decoder read past the end of its array. \<open>Return\<close>: \<open>Run\<close> returned after a
  receive error. \<open>Next\<close>: the state after the step and the actions it took, in order.
\<close>

datatype outcome =
    Fault
  | Return CAppleMIDIParticipant
  | Next CAppleMIDIParticipant "action list"

text \<open>
  The constructor; \<open>FRAME_BUFFER_SIZE\<close> is a macro of the network library and is taken as
  a parameter.
\<close>

definition Constructor :: "nat \<Rightarrow> CAppleMIDIParticipant" where
  "Constructor FRAME_BUFFER_SIZE =
     \<lparr>m_InitiatorIPAddress = 0,
      m_nInitiatorControlPort = 0,
      m_nInitiatorMIDIPort = 0,
      m_ControlBuffer = replicate FRAME_BUFFER_SIZE 0,
      m_MIDIBuffer = replicate FRAME_BUFFER_SIZE 0,
      m_nControlResult = 0,
      m_nMIDIResult = 0,
      m_pReceiveHandler = False,
      m_State = ControlInvitation,
      m_nInitiatorToken = 0,
      m_nInitiatorSSRC = 0,
      m_nSSRC = 0,
      m_nLastMIDISequenceNumber = 0,
      m_nOffsetEstimate = 0,
      m_nLastSyncTime = 0,
      m_nSequence = 0,
      m_nLastFeedbackSequence = 0,
      m_nLastFeedbackTime = 0\<rparr>"

definition RegisterMIDIReceiveHandler :: "CAppleMIDIParticipant \<Rightarrow> CAppleMIDIParticipant" where
  "RegisterMIDIReceiveHandler s = s\<lparr>m_pReceiveHandler := True\<rparr>"

definition Reset :: "CAppleMIDIParticipant \<Rightarrow> CAppleMIDIParticipant" where
  "Reset s =
     s\<lparr>m_State := ControlInvitation,
       m_nInitiatorToken := 0,
       m_nInitiatorSSRC := 0,
       m_nSSRC := 0,
       m_nLastMIDISequenceNumber := 0,
       m_nOffsetEstimate := 0,
       m_nLastSyncTime := 0,
       m_nSequence := 0,
       m_nLastFeedbackSequence := 0,
       m_nLastFeedbackTime := 0\<rparr>"

subsection \<open>Senders\<close>

text \<open>
  \<open>nResult\<close> is what \<open>SendTo\<close> returned. The datagram goes to \<open>m_InitiatorIPAddress\<close>.
\<close>

definition SendPacket ::
  "CAppleMIDIParticipant \<Rightarrow> CSocket \<Rightarrow> u16 \<Rightarrow> u8 list \<Rightarrow> nat \<Rightarrow> int \<Rightarrow> bool \<times> action list" where
  "SendPacket s pSocket nPort pData nSize nResult =
     (if nResult < 0 then False
      else if nat nResult \<noteq> nSize then False
      else True,
      [SendTo pSocket (m_InitiatorIPAddress s) nPort (take nSize pData)])"

text \<open>The socket passed in is not used: the packet leaves through the control socket.\<close>

definition SendAcceptInvitationPacket ::
  "CAppleMIDIParticipant \<Rightarrow> CSocket \<Rightarrow> u16 \<Rightarrow> int \<Rightarrow> bool \<times> action list" where
  "SendAcceptInvitationPacket s pSocket nPort nResult =
     (let Name = strncpy (c_str ''mt32-pi'') 256;
          AcceptPacket =
            htons AppleMIDISignature @ htons InvitationAccepted @
            htonl (ucast AppleMIDIVersion) @ htonl (m_nInitiatorToken s) @
            htonl (m_nSSRC s) @ Name;
          nSendSize = 272 - 256 + strlen Name + 1
      in SendPacket s m_pControlSocket nPort AcceptPacket nSendSize nResult)"

definition SendSyncPacket ::
  "CAppleMIDIParticipant \<Rightarrow> u64 \<Rightarrow> u64 \<Rightarrow> int \<Rightarrow> bool \<times> action list" where
  "SendSyncPacket s nTimestamp1 nTimestamp2 nResult =
     (let SyncPacket =
            htons AppleMIDISignature @ htons Sync @ htonl (m_nSSRC s) @
            [1] @ [0, 0, 0] @
            htonll nTimestamp1 @ htonll nTimestamp2 @ replicate 8 0
      in SendPacket s m_pControlSocket (m_nInitiatorMIDIPort s) SyncPacket 36 nResult)"

definition SendFeedbackPacket :: "CAppleMIDIParticipant \<Rightarrow> int \<Rightarrow> bool \<times> action list" where
  "SendFeedbackPacket s nResult =
     (let FeedbackPacket =
            htons AppleMIDISignature @ htons ReceiverFeedback @ htonl (m_nSSRC s) @
            htonl (push_bit 16 (ucast (m_nSequence s)))
      in SendPacket s m_pControlSocket (m_nInitiatorMIDIPort s) FeedbackPacket 12 nResult)"

subsection \<open>The three states\<close>

definition ControlInvitationState :: "CAppleMIDIParticipant \<Rightarrow> env \<Rightarrow> outcome" where
  "ControlInvitationState s e =
     (if m_nControlResult s = 0 then Next s []
      else case ParseInvitationPacket (m_ControlBuffer s) (nat (m_nControlResult s)) of
        Overrun \<Rightarrow> Fault
      | Reject \<Rightarrow> Next s []
      | Accept InvitationPacket \<Rightarrow>
          let s1 = s\<lparr>m_nInitiatorToken := inv_nInitiatorToken InvitationPacket,
                     m_nInitiatorSSRC := inv_nSSRC InvitationPacket,
                     m_nSSRC := GetNumber e\<rparr>;
              sent = SendAcceptInvitationPacket s1 m_pControlSocket
                       (m_nInitiatorControlPort s1) (SendToResult e SendAccept)
          in if \<not> fst sent then Next s1 (snd sent)
             else Next (s1\<lparr>m_nLastSyncTime := GetSyncClock e ClkControlAccepted,
                           m_State := MIDIInvitation\<rparr>) (snd sent))"

definition MIDIInvitationState :: "CAppleMIDIParticipant \<Rightarrow> env \<Rightarrow> outcome" where
  "MIDIInvitationState s e =
     (if m_nMIDIResult s > 0
      then case ParseInvitationPacket (m_MIDIBuffer s) (nat (m_nMIDIResult s)) of
          Overrun \<Rightarrow> Fault
        | Reject \<Rightarrow> Next s []
        | Accept InvitationPacket \<Rightarrow>
            let sent = SendAcceptInvitationPacket s m_pMIDISocket
                         (m_nInitiatorMIDIPort s) (SendToResult e SendAccept)
            in if fst sent
               then Next (s\<lparr>m_nLastSyncTime := GetSyncClock e ClkMIDIAccepted,
                            m_State := Connected\<rparr>) (snd sent)
               else Next (Reset s) (snd sent)
      else if GetSyncClock e ClkMIDITimeout - m_nLastSyncTime s > SyncTimeout
           then Next (Reset s) []
           else Next s [])"

text \<open>
  \<open>ConnectedState\<close>, in the four blocks of its body. First the control datagram: whether
  it is an end of session sent by the initiator (\<open>Reset\<close> and \<open>return\<close>); \<open>None\<close> when the
  decoder reads past the array.
\<close>

definition ConnectedState_control :: "CAppleMIDIParticipant \<Rightarrow> bool option" where
  "ConnectedState_control s =
     (if m_nControlResult s > 0
      then case ParseEndSessionPacket (m_ControlBuffer s) (nat (m_nControlResult s)) of
          Overrun \<Rightarrow> None
        | Reject \<Rightarrow> Some False
        | Accept EndSessionPacket \<Rightarrow> Some (bye_nSSRC EndSessionPacket = m_nInitiatorSSRC s)
      else Some False)"

text \<open>The datagram of the MIDI port: RTP-MIDI first, a sync packet otherwise.\<close>

definition ConnectedState_data :: "CAppleMIDIParticipant \<Rightarrow> env \<Rightarrow> outcome" where
  "ConnectedState_data s e =
     (if m_nMIDIResult s > 0
      then case ParseMIDIPacket (m_MIDIBuffer s) (nat (m_nMIDIResult s)) of
          Overrun \<Rightarrow> Fault
        | Accept (MIDIPacket, pMIDIData, nMIDIDataSize) \<Rightarrow>
            Next (s\<lparr>m_nSequence := rtp_nSequence MIDIPacket\<rparr>)
                 (if m_pReceiveHandler s
                  then [ReceiveHandler (take nMIDIDataSize (drop pMIDIData (m_MIDIBuffer s)))]
                  else [])
        | Reject \<Rightarrow>
            (case ParseSyncPacket (m_MIDIBuffer s) (nat (m_nMIDIResult s)) of
               Overrun \<Rightarrow> Fault
             | Reject \<Rightarrow> Next s []
             | Accept SyncPacket \<Rightarrow>
                 if sync_nSSRC SyncPacket = m_nInitiatorSSRC s \<and>
                    (sync_nCount SyncPacket = 0 \<or> sync_nCount SyncPacket = 2)
                 then
                   (if sync_nCount SyncPacket = 0
                    then Next (s\<lparr>m_nLastSyncTime := GetSyncClock e ClkSyncAccepted\<rparr>)
                              (snd (SendSyncPacket s (sync_nTimestamps SyncPacket ! 0)
                                      (GetSyncClock e ClkSyncReply) (SendToResult e SendSync)))
                    else if sync_nCount SyncPacket = 2
                    then Next (s\<lparr>m_nOffsetEstimate :=
                                    (sync_nTimestamps SyncPacket ! 2 +
                                     sync_nTimestamps SyncPacket ! 0) div 2 -
                                    sync_nTimestamps SyncPacket ! 1,
                                  m_nLastSyncTime := GetSyncClock e ClkSyncAccepted\<rparr>) []
                    else Next (s\<lparr>m_nLastSyncTime := GetSyncClock e ClkSyncAccepted\<rparr>) [])
                 else Next s [])
      else Next s [])"

text \<open>Receiver feedback, against the reading \<open>nTicks\<close>.\<close>

definition ConnectedState_feedback ::
  "CAppleMIDIParticipant \<Rightarrow> env \<Rightarrow> CAppleMIDIParticipant \<times> action list" where
  "ConnectedState_feedback s e =
     (let nTicks = GetSyncClock e ClkTick
      in if nTicks - m_nLastFeedbackTime s > ReceiverFeedbackPeriod
         then if m_nSequence s \<noteq> m_nLastFeedbackSequence s
              then (s\<lparr>m_nLastFeedbackSequence := m_nSequence s, m_nLastFeedbackTime := nTicks\<rparr>,
                    snd (SendFeedbackPacket s (SendToResult e SendFeedback)))
              else (s\<lparr>m_nLastFeedbackTime := nTicks\<rparr>, [])
         else (s, []))"

text \<open>The sync timeout, against the same reading.\<close>

definition ConnectedState_timeout :: "CAppleMIDIParticipant \<Rightarrow> env \<Rightarrow> CAppleMIDIParticipant" where
  "ConnectedState_timeout s e =
     (let nTicks = GetSyncClock e ClkTick
      in if nTicks - m_nLastSyncTime s > SyncTimeout then Reset s else s)"

definition ConnectedState :: "CAppleMIDIParticipant \<Rightarrow> env \<Rightarrow> outcome" where
  "ConnectedState s e =
     (case ConnectedState_control s of
        None \<Rightarrow> Fault
      | Some True \<Rightarrow> Next (Reset s) []
      | Some False \<Rightarrow>
          (case ConnectedState_data s e of
             Fault \<Rightarrow> Fault
           | Return s1 \<Rightarrow> Return s1
           | Next s1 sent1 \<Rightarrow>
               (case ConnectedState_feedback s1 e of
                  (s2, sent2) \<Rightarrow> Next (ConnectedState_timeout s2 e) (sent1 @ sent2))))"

subsection \<open>The loop\<close>

text \<open>
  Modelled from the spec: \<open>CSocket::ReceiveFrom\<close> with \<open>MSG_DONTWAIT\<close>, a function of the
  network library that is not among the sources. Following the transport contract
  (\<open>recv_from_nonblocking(sock, buf)\<close> gives \<open>(n, peer_ip, peer_port)\<close>, would-block or an
  error): a datagram is copied to the front of the array, cut to its size, and its
  sender stored through the two out-pointers; would-block is the result 0 and an error a
  negative result, both leaving array and out-parameters alone.
\<close>

definition ReceiveFrom ::
  "u8 list \<Rightarrow> CIPAddress \<Rightarrow> u16 \<Rightarrow> received \<Rightarrow> int \<times> u8 list \<times> CIPAddress \<times> u16" where
  "ReceiveFrom pBuffer ForeignIP nForeignPort r =
     (case r of
        WouldBlock \<Rightarrow> (0, pBuffer, ForeignIP, nForeignPort)
      | Failed \<Rightarrow> (- 1, pBuffer, ForeignIP, nForeignPort)
      | Datagram d ip port \<Rightarrow>
          (let n = min (length d) (length pBuffer)
           in (int n, take n d @ drop n pBuffer, ip, port)))"

text \<open>One iteration of the \<open>while (true)\<close> of \<open>Run\<close>.\<close>

definition Iteration :: "CAppleMIDIParticipant \<Rightarrow> env \<Rightarrow> outcome" where
  "Iteration s e =
     (case ReceiveFrom (m_ControlBuffer s) (m_InitiatorIPAddress s)
             (m_nInitiatorControlPort s) (ControlReceive e) of
        (r1, buf1, ip1, port1) \<Rightarrow>
          (let s1 = s\<lparr>m_nControlResult := r1, m_ControlBuffer := buf1,
                      m_InitiatorIPAddress := ip1, m_nInitiatorControlPort := port1\<rparr>
           in if r1 < 0 then Return s1
              else (case ReceiveFrom (m_MIDIBuffer s1) (m_InitiatorIPAddress s1)
                           (m_nInitiatorMIDIPort s1) (MIDIReceive e) of
                (r2, buf2, ip2, port2) \<Rightarrow>
                  (let s2 = s1\<lparr>m_nMIDIResult := r2, m_MIDIBuffer := buf2,
                               m_InitiatorIPAddress := ip2, m_nInitiatorMIDIPort := port2\<rparr>
                   in if r2 < 0 then Return s2
                      else (case m_State s2 of
                              ControlInvitation \<Rightarrow> ControlInvitationState s2 e
                            | MIDIInvitation \<Rightarrow> MIDIInvitationState s2 e
                            | Connected \<Rightarrow> ConnectedState s2 e)))))"

text \<open>
  \<open>Run\<close> on the answers of the collaborators for its first iterations: the states at the
  head of the loop, one per iteration entered, and the state after the last one. The list
  ends early when \<open>Run\<close> returns or faults.
\<close>

fun Run :: "CAppleMIDIParticipant \<Rightarrow> env list \<Rightarrow> CAppleMIDIParticipant list" where
  "Run s [] = [s]"
| "Run s (e # es) =
     s # (case Iteration s e of
            Next s' sent \<Rightarrow> Run s' es
          | Return s' \<Rightarrow> []
          | Fault \<Rightarrow> [])"

section \<open>Predicates and inputs of the properties\<close>

text \<open>
  The fields that \<open>Reset\<close> assigns: the state and the nine members declared after it in
  the header.
\<close>

definition session_cleared :: "CAppleMIDIParticipant \<Rightarrow> bool" where
  "session_cleared s =
     (m_State s = ControlInvitation \<and> m_nInitiatorToken s = 0 \<and> m_nInitiatorSSRC s = 0 \<and>
      m_nSSRC s = 0 \<and> m_nLastMIDISequenceNumber s = 0 \<and> m_nOffsetEstimate s = 0 \<and>
      m_nLastSyncTime s = 0 \<and> m_nSequence s = 0 \<and> m_nLastFeedbackSequence s = 0 \<and>
      m_nLastFeedbackTime s = 0)"

text \<open>
  The peer of the scenarios, 192.0.2.10, with token \<open>DEADBEEF\<close> and SSRC \<open>CAFEBABE\<close>, and
  a participant connected to it: local SSRC \<open>0x1234567\<close>, last sequence number \<open>0x1234\<close>.
\<close>

definition peer_ip :: CIPAddress where
  "peer_ip = 0xC000020A"

definition connected_session :: CAppleMIDIParticipant where
  "connected_session =
     (Constructor 1600)
       \<lparr>m_InitiatorIPAddress := peer_ip,
        m_nInitiatorControlPort := 5004,
        m_nInitiatorMIDIPort := 5005,
        m_pReceiveHandler := True,
        m_State := Connected,
        m_nInitiatorToken := 0xDEADBEEF,
        m_nInitiatorSSRC := 0xCAFEBABE,
        m_nSSRC := 0x1234567,
        m_nOffsetEstimate := 5,
        m_nLastSyncTime := 1000,
        m_nSequence := 0x1234,
        m_nLastFeedbackSequence := 0x1234,
        m_nLastFeedbackTime := 1000\<rparr>"

text \<open>An iteration in which nothing arrives, at clock reading \<open>now\<close>, every send succeeding.\<close>

definition quiet :: "u64 \<Rightarrow> env" where
  "quiet now =
     \<lparr>ControlReceive = WouldBlock, MIDIReceive = WouldBlock, GetNumber = 0x1234567,
      GetSyncClock = (\<lambda>c. now),
      SendToResult = (\<lambda>c. case c of SendAccept \<Rightarrow> 24 | SendSync \<Rightarrow> 36 | SendFeedback \<Rightarrow> 12)\<rparr>"

text \<open>The end-session packet of the peer: \<open>FFFF 4259 00000002 DEADBEEF CAFEBABE\<close>.\<close>

definition frame_BY :: "u8 list" where
  "frame_BY =
     [0xFF, 0xFF, 0x42, 0x59, 0, 0, 0, 2, 0xDE, 0xAD, 0xBE, 0xEF, 0xCA, 0xFE, 0xBA, 0xBE]"

text \<open>
  RTP-MIDI packets of the peer: the middle segment of scenario 5 (header \<open>0x05\<close>, payload
  \<open>F7 11 22 33 F0\<close>) and a cancelled segment (header \<open>0x03\<close>, payload \<open>F7 11 F4\<close>).
\<close>

definition frame_sysex_middle :: "u8 list" where
  "frame_sysex_middle =
     [0x80, 0x61, 0x12, 0x35, 0, 0, 0, 1, 0xCA, 0xFE, 0xBA, 0xBE, 0x05,
      0xF7, 0x11, 0x22, 0x33, 0xF0]"

definition frame_sysex_cancelled :: "u8 list" where
  "frame_sysex_cancelled =
     [0x80, 0x61, 0x12, 0x36, 0, 0, 0, 1, 0xCA, 0xFE, 0xBA, 0xBE, 0x03,
      0xF7, 0x11, 0xF4]"

text \<open>The connected session with a datagram just received into \<open>m_MIDIBuffer\<close>.\<close>

definition receiving_MIDI :: "u8 list \<Rightarrow> CAppleMIDIParticipant" where
  "receiving_MIDI d =
     connected_session\<lparr>m_nMIDIResult := int (length d),
                         m_MIDIBuffer := d @ replicate (1600 - length d) 0\<rparr>"

text \<open>
  The payload a packet declares: the bytes from the first payload byte on, as many as the
  length in its header says.
\<close>

definition declared_payload :: "u8 list \<Rightarrow> u8 list" where
  "declared_payload pBuffer =
     (case midi_list pBuffer of
        None \<Rightarrow> []
      | Some (pMIDIData, nMIDIDataSize) \<Rightarrow> take (unat nMIDIDataSize) (drop pMIDIData pBuffer))"

text \<open>
  The fixup in the words of the specification, on the payload as a list: first segment,
  middle segment, last segment, cancelled segment (a single \<open>0xF4\<close>), otherwise unchanged.
\<close>

definition sysex_fixup_claimed :: "u8 list \<Rightarrow> u8 list" where
  "sysex_fixup_claimed payload =
     (if payload = [] then payload
      else if hd payload = 0xF0 \<and> last payload = 0xF0 then butlast payload
      else if hd payload = 0xF7 \<and> last payload = 0xF0 then butlast (tl payload)
      else if hd payload = 0xF7 \<and> last payload = 0xF7 then tl payload
      else if hd payload = 0xF7 \<and> last payload = 0xF4 then [0xF4]
      else payload)"

text \<open>The same with the cancelled segment as the code has it: the byte at the head.\<close>

definition sysex_fixup_amended :: "u8 list \<Rightarrow> u8 list" where
  "sysex_fixup_amended payload =
     (if payload = [] then payload
      else if hd payload = 0xF0 \<and> last payload = 0xF0 then butlast payload
      else if hd payload = 0xF7 \<and> last payload = 0xF0 then butlast (tl payload)
      else if hd payload = 0xF7 \<and> last payload = 0xF7 then tl payload
      else if hd payload = 0xF7 \<and> last payload = 0xF4 then [0xF7]
      else payload)"

text \<open>
  A datagram of 13 bytes: an RTP-MIDI header whose length nibble declares 15 payload bytes,
  and no payload.
\<close>

definition frame_short :: "u8 list" where
  "frame_short = [0x80, 0x61, 0x12, 0x37, 0, 0, 0, 1, 0xCA, 0xFE, 0xBA, 0xBE, 0x0F]"

text \<open>
  A 36-byte datagram with signature \<open>FFFE\<close> and version 3 (as RTP flags: version 3).
\<close>

definition frame_bad :: "u8 list" where
  "frame_bad =
     [0xFF, 0xFE, 0x49, 0x4E, 0, 0, 0, 3, 0xDE, 0xAD, 0xBE, 0xEF, 0xCA, 0xFE, 0xBA, 0xBE]
     @ replicate 20 0"

text \<open>The bytes of a datagram handed to \<open>SendTo\<close>.\<close>

definition sent_bytes :: "action \<Rightarrow> u8 list" where
  "sent_bytes a = (case a of SendTo sock ip port d \<Rightarrow> d | ReceiveHandler d \<Rightarrow> [])"

text \<open>
  The third message of a sync round from the peer: count 2, timestamps 1000, 1040, 1200.
\<close>

definition frame_CK2 :: "u8 list" where
  "frame_CK2 =
     [0xFF, 0xFF, 0x43, 0x4B, 0xCA, 0xFE, 0xBA, 0xBE, 2, 0, 0, 0,
      0, 0, 0, 0, 0, 0, 0x03, 0xE8,
      0, 0, 0, 0, 0, 0, 0x04, 0x10,
      0, 0, 0, 0, 0, 0, 0x04, 0xB0]"

text \<open>The state and the actions of an outcome.\<close>

definition next_state :: "outcome \<Rightarrow> CAppleMIDIParticipant option" where
  "next_state r = (case r of Next s sent \<Rightarrow> Some s | Return s \<Rightarrow> None | Fault \<Rightarrow> None)"

definition actions :: "outcome \<Rightarrow> action list" where
  "actions r = (case r of Next s sent \<Rightarrow> sent | Return s \<Rightarrow> [] | Fault \<Rightarrow> [])"

text \<open>
  The first message of a sync round from the peer (count 0, timestamp 1000), and a sync
  packet with count 2 from a sender that is not the initiator.
\<close>

definition frame_CK0 :: "u8 list" where
  "frame_CK0 =
     [0xFF, 0xFF, 0x43, 0x4B, 0xCA, 0xFE, 0xBA, 0xBE, 0, 0, 0, 0,
      0, 0, 0, 0, 0, 0, 0x03, 0xE8,
      0, 0, 0, 0, 0, 0, 0, 0,
      0, 0, 0, 0, 0, 0, 0, 0]"

definition frame_CK_stranger :: "u8 list" where
  "frame_CK_stranger =
     [0xFF, 0xFF, 0x43, 0x4B, 0x0B, 0xAD, 0xF0, 0x0D, 2, 0, 0, 0,
      0, 0, 0, 0, 0, 0, 0x03, 0xE8,
      0, 0, 0, 0, 0, 0, 0x04, 0x10,
      0, 0, 0, 0, 0, 0, 0x04, 0xB0]"

text \<open>A datagram sent whose command word is \<open>RS\<close>.\<close>

definition is_feedback :: "action \<Rightarrow> bool" where
  "is_feedback a =
     (case a of
        SendTo sock ip port d \<Rightarrow> ntohs_at d 2 = Some ReceiverFeedback
      | ReceiveHandler d \<Rightarrow> False)"

text \<open>The connected session with a sequence number not yet reported.\<close>

definition feedback_due :: CAppleMIDIParticipant where
  "feedback_due = connected_session\<lparr>m_nLastFeedbackSequence := 0x1233\<rparr>"

text \<open>
  The invitation of scenario 1, \<open>FFFF 494E 00000002 DEADBEEF CAFEBABE "host"\<close>; a fresh
  participant that has just received it on the control port; and a participant that has
  accepted it there and has just received it on the MIDI port.
\<close>

definition frame_IN :: "u8 list" where
  "frame_IN =
     [0xFF, 0xFF, 0x49, 0x4E, 0, 0, 0, 2, 0xDE, 0xAD, 0xBE, 0xEF, 0xCA, 0xFE, 0xBA, 0xBE,
      0x68, 0x6F, 0x73, 0x74, 0]"

definition invited_on_control :: CAppleMIDIParticipant where
  "invited_on_control =
     (Constructor 1600)
       \<lparr>m_InitiatorIPAddress := peer_ip,
        m_nInitiatorControlPort := 5004,
        m_ControlBuffer := frame_IN @ replicate 1579 0,
        m_nControlResult := 21\<rparr>"

definition invited_on_MIDI :: CAppleMIDIParticipant where
  "invited_on_MIDI =
     (Constructor 1600)
       \<lparr>m_InitiatorIPAddress := peer_ip,
        m_nInitiatorControlPort := 5004,
        m_nInitiatorMIDIPort := 5005,
        m_MIDIBuffer := frame_IN @ replicate 1579 0,
        m_nMIDIResult := 21,
        m_State := MIDIInvitation,
        m_nInitiatorToken := 0xDEADBEEF,
        m_nInitiatorSSRC := 0xCAFEBABE,
        m_nSSRC := 0x1234567,
        m_nLastSyncTime := 1000\<rparr>"

text \<open>The same answers of the collaborators, but every \<open>SendTo\<close> fails.\<close>

definition would_block :: "env \<Rightarrow> env" where
  "would_block e = e\<lparr>SendToResult := (\<lambda>c. - 1)\<rparr>"

text \<open>A send that fails: a negative result, or fewer bytes than asked for.\<close>

definition send_failed :: "int \<Rightarrow> nat \<Rightarrow> bool" where
  "send_failed nResult nSize = (nResult < 0 \<or> nat nResult \<noteq> nSize)"

text \<open>
  Another host, 198.51.100.7, and its own invitation (token \<open>0BADF00D\<close>, SSRC
  \<open>0BADCAFE\<close>); the iterations of \<open>Run\<close> in which the peer's invitation arrives on the
  control port, then on the MIDI port, and the one in which the other host's invitation
  arrives on the MIDI port instead.
\<close>

definition stranger_ip :: CIPAddress where
  "stranger_ip = 0xC6336407"

definition frame_IN_stranger :: "u8 list" where
  "frame_IN_stranger =
     [0xFF, 0xFF, 0x49, 0x4E, 0, 0, 0, 2, 0x0B, 0xAD, 0xF0, 0x0D, 0x0B, 0xAD, 0xCA, 0xFE,
      0x6F, 0x74, 0x68, 0x65, 0x72, 0]"

definition invitation_on_control :: env where
  "invitation_on_control = (quiet 1000)\<lparr>ControlReceive := Datagram frame_IN peer_ip 5004\<rparr>"

definition invitation_on_MIDI :: env where
  "invitation_on_MIDI = (quiet 1010)\<lparr>MIDIReceive := Datagram frame_IN peer_ip 5005\<rparr>"

definition stranger_on_MIDI :: env where
  "stranger_on_MIDI =
     (quiet 1010)\<lparr>MIDIReceive := Datagram frame_IN_stranger stranger_ip 6001\<rparr>"

text \<open>Whether a decoder returned \<open>true\<close>.\<close>

definition accepted :: "'a parse \<Rightarrow> bool" where
  "accepted r = (case r of Accept x \<Rightarrow> True | Reject \<Rightarrow> False | Overrun \<Rightarrow> False)"

text \<open>
  The participant after the two \<open>ReceiveFrom\<close> calls at the head of an iteration of \<open>Run\<close>,
  when neither fails: the state that the state functions are called in.
\<close>

definition Received :: "CAppleMIDIParticipant \<Rightarrow> env \<Rightarrow> CAppleMIDIParticipant" where
  "Received s e =
     (case ReceiveFrom (m_ControlBuffer s) (m_InitiatorIPAddress s)
             (m_nInitiatorControlPort s) (ControlReceive e) of
        (r1, buf1, ip1, port1) \<Rightarrow>
          (case ReceiveFrom (m_MIDIBuffer s) ip1 (m_nInitiatorMIDIPort s) (MIDIReceive e) of
             (r2, buf2, ip2, port2) \<Rightarrow>
               s\<lparr>m_nControlResult := r1, m_ControlBuffer := buf1,
                  m_nInitiatorControlPort := port1,
                  m_nMIDIResult := r2, m_MIDIBuffer := buf2,
                  m_InitiatorIPAddress := ip2, m_nInitiatorMIDIPort := port2\<rparr>))"

text \<open>
  Accepting an invitation: a datagram has arrived on the port, it decodes as an
  invitation, and the acceptance is sent in full.
\<close>

definition control_invitation_accepted :: "CAppleMIDIParticipant \<Rightarrow> env \<Rightarrow> bool" where
  "control_invitation_accepted s e =
     (m_nControlResult s \<noteq> 0 \<and>
      accepted (ParseInvitationPacket (m_ControlBuffer s) (nat (m_nControlResult s))) \<and>
      \<not> send_failed (SendToResult e SendAccept) 24)"

definition MIDI_invitation_accepted :: "CAppleMIDIParticipant \<Rightarrow> env \<Rightarrow> bool" where
  "MIDI_invitation_accepted s e =
     (0 < m_nMIDIResult s \<and>
      accepted (ParseInvitationPacket (m_MIDIBuffer s) (nat (m_nMIDIResult s))) \<and>
      \<not> send_failed (SendToResult e SendAccept) 24)"

section \<open>Evaluation\<close>

lemmas codec_defs =
  reading_def ntohs_at_def ntohl_at_def ntohll_at_def peek_def
  htons_def htonl_def htonll_def
  AppleMIDISignature_def AppleMIDIVersion_def RTPMIDIVersion_def RTPMIDIPayloadType_def
  Invitation_def InvitationAccepted_def Sync_def ReceiverFeedback_def EndSession_def
  CommandWord_def

lemmas scenario_defs =
  connected_session_def Constructor_def quiet_def peer_ip_def receiving_MIDI_def

section \<open>Reset\<close>

lemma session_cleared_Reset: "session_cleared (Reset s)"
  by (simp add: session_cleared_def Reset_def)

lemma ConnectedState_data_State:
  "ConnectedState_data s e = Next s' sent \<Longrightarrow> m_State s' = m_State s"
  by (auto simp: ConnectedState_data_def split: if_splits parse.splits prod.splits)

lemma ConnectedState_feedback_State:
  "m_State (fst (ConnectedState_feedback s e)) = m_State s"
  by (simp add: ConnectedState_feedback_def Let_def)

lemma MIDIInvitationState_back:
  "MIDIInvitationState s e = Next s' sent \<Longrightarrow> m_State s = MIDIInvitation \<Longrightarrow>
   m_State s' = ControlInvitation \<Longrightarrow> s' = Reset s"
  by (auto simp: MIDIInvitationState_def Let_def split: if_splits parse.splits)

lemma ConnectedState_back:
  assumes "ConnectedState s e = Next s' sent"
    and "m_State s = Connected"
    and "m_State s' = ControlInvitation"
  shows "\<exists>t. s' = Reset t"
proof (cases "ConnectedState_control s")
  case (Some b)
  show ?thesis
  proof (cases b)
    case True
    with Some assms show ?thesis by (auto simp: ConnectedState_def)
  next
    case False
    with Some assms(1) obtain s1 sent1
      where d: "ConnectedState_data s e = Next s1 sent1"
        and r: "s' = ConnectedState_timeout (fst (ConnectedState_feedback s1 e)) e"
      by (auto simp: ConnectedState_def split: outcome.splits prod.splits)
    have "m_State (fst (ConnectedState_feedback s1 e)) = Connected"
      using ConnectedState_data_State[OF d] assms(2) by (simp add: ConnectedState_feedback_State)
    with r assms(3) show ?thesis
      by (auto simp: ConnectedState_timeout_def Let_def split: if_splits)
  qed
qed (use assms in \<open>auto simp: ConnectedState_def\<close>)

lemma Iteration_back:
  assumes "Iteration s e = Next s' sent"
    and "m_State s \<noteq> ControlInvitation"
    and "m_State s' = ControlInvitation"
  shows "\<exists>t. s' = Reset t"
  using assms
  by (auto simp: Iteration_def Let_def split: prod.splits if_splits TState.splits
      dest: MIDIInvitationState_back ConnectedState_back)

text \<open>
  Claim C1, as the code has it. \<open>Reset\<close> leaves the state \<open>ControlInvitation\<close> and the
  initiator token, initiator SSRC, local SSRC, last MIDI sequence number, offset estimate,
  last sync time, sequence number, last feedback sequence and last feedback time zero;
  the peer address and the two peer ports, which the header keeps with the receive
  buffers, are left as they were. Whatever triggers it (end of session, either timeout,
  a failed send in \<open>MIDIInvitation\<close>), an iteration of \<open>Run\<close> that leaves a session and
  ends in \<open>ControlInvitation\<close> ends with all those fields zero.
\<close>

theorem Reset_zeroes_session_fields:
  "session_cleared (Reset s) \<and>
   m_InitiatorIPAddress (Reset s) = m_InitiatorIPAddress s \<and>
   m_nInitiatorControlPort (Reset s) = m_nInitiatorControlPort s \<and>
   m_nInitiatorMIDIPort (Reset s) = m_nInitiatorMIDIPort s \<and>
   (m_State s \<noteq> ControlInvitation \<and> Iteration s e = Next s' sent \<and>
    m_State s' = ControlInvitation \<longrightarrow> session_cleared s')"
proof -
  have "session_cleared s'"
    if "m_State s \<noteq> ControlInvitation" "Iteration s e = Next s' sent"
      "m_State s' = ControlInvitation"
    using Iteration_back[OF that(2) that(1) that(3)] session_cleared_Reset by auto
  then show ?thesis
    by (simp add: session_cleared_Reset) (simp add: Reset_def)
qed

text \<open>
  Scenario 6: the connected session receives the peer's end of session and is back in
  \<open>ControlInvitation\<close> with the fields zeroed.
\<close>

theorem Reset_zeroes_session_fields_witness:
  "m_State connected_session \<noteq> ControlInvitation \<and>
   Iteration connected_session
     ((quiet 2000)\<lparr>ControlReceive := Datagram frame_BY peer_ip 5004\<rparr>) =
     Next (Reset (connected_session\<lparr>m_nControlResult := 16,
                    m_ControlBuffer := frame_BY @ replicate 1584 0\<rparr>)) [] \<and>
   session_cleared (Reset (connected_session\<lparr>m_nControlResult := 16,
                     m_ControlBuffer := frame_BY @ replicate 1584 0\<rparr>))"
  using Reset_zeroes_session_fields
    [of connected_session
        "(quiet 2000)\<lparr>ControlReceive := Datagram frame_BY peer_ip 5004\<rparr>"
        "Reset (connected_session\<lparr>m_nControlResult := 16,
                  m_ControlBuffer := frame_BY @ replicate 1584 0\<rparr>)"
        "[]"]
  by (simp add: connected_session_def Constructor_def quiet_def frame_BY_def Iteration_def
      ReceiveFrom_def ConnectedState_def ConnectedState_control_def ParseEndSessionPacket_def
      codec_defs nth_append Reset_def session_cleared_def)

text \<open>
  Against C1 as stated: after the \<open>Reset\<close> of the connected session, the peer address and
  both peer ports still hold the values of that session, none of them zero.
\<close>

theorem Reset_keeps_peer_counterexample:
  "m_InitiatorIPAddress (Reset connected_session) = 0xC000020A \<and>
   m_nInitiatorControlPort (Reset connected_session) = 5004 \<and>
   m_nInitiatorMIDIPort (Reset connected_session) = 5005"
  by (simp add: connected_session_def Constructor_def Reset_def peer_ip_def)

section \<open>SysEx boundaries\<close>

lemma high_bit_clear:
  "(h :: u8) AND push_bit 7 1 = 0 \<Longrightarrow> h \<noteq> 0xF0 \<and> h \<noteq> 0xF7 \<and> h \<noteq> 0xF4"
  by auto

lemma long_length_zero:
  "push_bit 8 (ucast ((h :: u8) AND 0x0F)) OR (ucast (lo :: u8) :: u16) = 0 \<Longrightarrow> lo = 0"
proof -
  assume "push_bit 8 (ucast (h AND 0x0F)) OR (ucast lo :: u16) = 0"
  then have "(ucast lo :: u16) = 0" by (simp add: or_eq_0_iff)
  then have "(ucast (ucast lo :: u16) :: u8) = 0" by simp
  moreover have "(ucast (ucast lo :: u16) :: u8) = lo"
    by (rule bit_word_eqI) (auto simp: bit_simps)
  ultimately show "lo = 0" by simp
qed

lemma midi_list_empty:
  "midi_list buf = Some (P, 0) \<Longrightarrow>
   buf ! (P - 1) \<noteq> 0xF0 \<and> buf ! (P - 1) \<noteq> 0xF7 \<and> buf ! (P - 1) \<noteq> 0xF4"
  by (auto simp: midi_list_def peek_def split: option.splits if_splits dest!: long_length_zero high_bit_clear)


lemma payload_ends:
  assumes "0 < n" "n \<le> length xs"
  shows "take n xs \<noteq> []" "hd (take n xs) = xs ! 0" "last (take n xs) = xs ! (n - 1)"
proof -
  show ne: "take n xs \<noteq> []" using assms by auto
  show "hd (take n xs) = xs ! 0" using assms by (cases xs) auto
  show "last (take n xs) = xs ! (n - 1)"
    using assms ne by (simp add: last_conv_nth min_absorb2)
qed

lemma fixup_on_lists:
  fixes xs :: "u8 list"
  assumes n: "0 < n" "n \<le> length xs"
  shows "sysex_fixup_amended (take n xs) =
     (if xs ! 0 = 0xF0 \<and> xs ! (n - 1) = 0xF0 then take (n - 1) xs
      else if xs ! 0 = 0xF7 \<and> xs ! (n - 1) = 0xF0 then take (n - 2) (drop 1 xs)
      else if xs ! 0 = 0xF7 \<and> xs ! (n - 1) = 0xF7 then take (n - 1) (drop 1 xs)
      else if xs ! 0 = 0xF7 \<and> xs ! (n - 1) = 0xF4 then [0xF7]
      else take n xs)"
proof -
  have b: "butlast (take n xs) = take (n - 1) xs"
    using n by (simp add: butlast_take)
  have t: "tl (take n xs) = take (n - 1) (drop 1 xs)"
    by (simp add: tl_take drop_Suc)
  have "butlast (take (n - 1) (drop 1 xs)) = take (n - 1 - 1) (drop 1 xs)"
    using n by (simp add: butlast_take)
  moreover have "n - 1 - 1 = n - 2" by simp
  ultimately have bt: "butlast (take (n - 1) (drop 1 xs)) = take (n - 2) (drop 1 xs)"
    by simp
  show ?thesis
    unfolding sysex_fixup_amended_def payload_ends(2,3)[OF n] b t bt
    using payload_ends(1)[OF n] by simp
qed

lemma fixup_refines:
  assumes ml: "midi_list buf = Some (P, L)"
    and hd: "P < length buf"
    and tl: "P + unat L - 1 < length buf"
    and fx: "sysex_fixup P L (buf ! P) (buf ! (P + unat L - 1)) = (pOut, nOut)"
  shows "take (unat nOut) (drop pOut buf) = sysex_fixup_amended (take (unat L) (drop P buf))"
proof (cases "L = 0")
  case True
  with midi_list_empty ml
  have "buf ! (P - 1) \<noteq> 0xF0 \<and> buf ! (P - 1) \<noteq> 0xF7 \<and> buf ! (P - 1) \<noteq> 0xF4"
    by blast
  with fx True show ?thesis
    by (auto simp: sysex_fixup_def sysex_fixup_amended_def)
next
  case False
  define n where "n = unat L"
  define xs where "xs = drop P buf"
  have n: "0 < n" "n \<le> length xs"
    using False tl hd by (auto simp: n_def xs_def unat_gt_0)
  have h: "buf ! P = xs ! 0" "buf ! (P + unat L - 1) = xs ! (n - 1)"
    using n hd by (auto simp: xs_def n_def)
  have m1: "unat (L - 1) = n - 1"
    using False by (simp add: n_def unat_minus_one)
  have m2: "unat (L - 2) = n - 2" if "xs ! 0 \<noteq> xs ! (n - 1)"
  proof -
    from that n have "2 \<le> n" by (cases "n = 1") auto
    then have "2 \<le> L" by (simp add: n_def word_le_nat_alt)
    then show ?thesis by (simp add: unat_sub n_def)
  qed
  have d: "drop (P + 1) buf = drop 1 xs"
    by (simp add: xs_def)
  have one: "take 1 xs = [xs ! 0]"
    using n by (cases xs) auto
  have rhs: "sysex_fixup_amended (take (unat L) (drop P buf)) =
     (if xs ! 0 = 0xF0 \<and> xs ! (n - 1) = 0xF0 then take (n - 1) xs
      else if xs ! 0 = 0xF7 \<and> xs ! (n - 1) = 0xF0 then take (n - 2) (drop 1 xs)
      else if xs ! 0 = 0xF7 \<and> xs ! (n - 1) = 0xF7 then take (n - 1) (drop 1 xs)
      else if xs ! 0 = 0xF7 \<and> xs ! (n - 1) = 0xF4 then [0xF7]
      else take n xs)"
    using fixup_on_lists[OF n] by (simp only: n_def xs_def)
  have lhs: "(pOut, nOut) = sysex_fixup P L (xs ! 0) (xs ! (n - 1))"
    using fx h by simp
  consider (first) "xs ! 0 = 0xF0" "xs ! (n - 1) = 0xF0"
    | (middle) "xs ! 0 = 0xF7" "xs ! (n - 1) = 0xF0"
    | (final) "xs ! 0 = 0xF7" "xs ! (n - 1) = 0xF7"
    | (cancelled) "xs ! 0 = 0xF7" "xs ! (n - 1) = 0xF4"
    | (other) "\<not> (xs ! 0 = 0xF0 \<and> xs ! (n - 1) = 0xF0)" "\<not> (xs ! 0 = 0xF7 \<and> xs ! (n - 1) = 0xF0)"
        "\<not> (xs ! 0 = 0xF7 \<and> xs ! (n - 1) = 0xF7)" "\<not> (xs ! 0 = 0xF7 \<and> xs ! (n - 1) = 0xF4)"
    by blast
  then show ?thesis
  proof cases
    case first
    with lhs have "pOut = P" "nOut = L - 1" by (simp_all add: sysex_fixup_def)
    with first show ?thesis unfolding rhs by (simp add: m1 xs_def)
  next
    case middle
    with lhs have "pOut = P + 1" "nOut = L - 2" by (simp_all add: sysex_fixup_def)
    moreover have "unat (L - 2) = n - 2" using middle by (intro m2) simp
    ultimately show ?thesis using middle unfolding rhs by (simp only: d) simp
  next
    case final
    with lhs have "pOut = P + 1" "nOut = L - 1" by (simp_all add: sysex_fixup_def)
    with final show ?thesis unfolding rhs by (simp only: d m1) simp
  next
    case cancelled
    with lhs have "pOut = P" "nOut = 1" by (simp_all add: sysex_fixup_def)
    with cancelled one show ?thesis unfolding rhs by (simp add: xs_def)
  next
    case other
    with lhs have "pOut = P" "nOut = L" by (auto simp: sysex_fixup_def split: if_splits)
    with other show ?thesis unfolding rhs by (auto simp: xs_def n_def)
  qed
qed


lemma ParseMIDIPacket_AcceptD:
  assumes "ParseMIDIPacket buf n = Accept (hdr, pOut, nOut)"
  obtains P L nOut16 where
    "midi_list buf = Some (P, L)" "P < length buf" "P + unat L - 1 < length buf"
    "sysex_fixup P L (buf ! P) (buf ! (P + unat L - 1)) = (pOut, nOut16)"
    "nOut = unat nOut16"
    "ntohs_at buf 2 = Some (rtp_nSequence hdr)"
  using assms
  by (auto simp: ParseMIDIPacket_def reading_def peek_def
      split: option.splits if_splits prod.splits)

lemma ParseMIDIPacket_region:
  assumes "ParseMIDIPacket buf n = Accept (hdr, pOut, nOut)"
  shows "take nOut (drop pOut buf) = sysex_fixup_amended (declared_payload buf)"
proof -
  from assms obtain P L nOut16 where
    ml: "midi_list buf = Some (P, L)" and b: "P < length buf" "P + unat L - 1 < length buf"
    and fx: "sysex_fixup P L (buf ! P) (buf ! (P + unat L - 1)) = (pOut, nOut16)"
    and n: "nOut = unat nOut16"
    by (rule ParseMIDIPacket_AcceptD)
  from fixup_refines[OF ml b fx] show ?thesis
    by (simp add: n declared_payload_def ml)
qed

text \<open>
  Claim C2, as the code has it. For every packet \<open>ParseMIDIPacket\<close> accepts, the region it
  returns holds the declared payload without its trailing \<open>F0\<close> (head \<open>F0\<close>, tail \<open>F0\<close>),
  without its leading \<open>F7\<close> and trailing \<open>F0\<close> (head \<open>F7\<close>, tail \<open>F0\<close>), without its
  leading \<open>F7\<close> (head \<open>F7\<close>, tail \<open>F7\<close>), its first byte \<open>F7\<close> alone (head \<open>F7\<close>, tail
  \<open>F4\<close>), and the payload unchanged otherwise; these are the bytes the receive handler is
  called with.
\<close>

theorem sysex_fixup_delivered:
  assumes "ParseMIDIPacket (m_MIDIBuffer s) (nat (m_nMIDIResult s)) =
             Accept (MIDIPacket, pMIDIData, nMIDIDataSize)"
  shows "take nMIDIDataSize (drop pMIDIData (m_MIDIBuffer s)) =
           sysex_fixup_amended (declared_payload (m_MIDIBuffer s)) \<and>
         (0 < m_nMIDIResult s \<and> m_pReceiveHandler s \<longrightarrow>
            ConnectedState_data s e =
              Next (s\<lparr>m_nSequence := rtp_nSequence MIDIPacket\<rparr>)
                   [ReceiveHandler (sysex_fixup_amended (declared_payload (m_MIDIBuffer s)))])"
  using ParseMIDIPacket_region[OF assms] assms
  by (simp add: ConnectedState_data_def)

lemma ParseMIDIPacket_sysex_middle:
  "ParseMIDIPacket (m_MIDIBuffer (receiving_MIDI frame_sysex_middle))
     (nat (m_nMIDIResult (receiving_MIDI frame_sysex_middle))) =
   Accept (\<lparr>rtp_nFlags = 0x8061, rtp_nSequence = 0x1235, rtp_nTimestamp = 1,
            rtp_nSSRC = 0xCAFEBABE\<rparr>, 14, 3)"
  by (simp add: frame_sysex_middle_def scenario_defs ParseMIDIPacket_def midi_list_def
      sysex_fixup_def codec_defs nth_append)

text \<open>Scenario 5: for the payload \<open>F7 11 22 33 F0\<close> the handler receives \<open>11 22 33\<close>.\<close>

theorem sysex_fixup_delivered_witness:
  "ParseMIDIPacket (m_MIDIBuffer (receiving_MIDI frame_sysex_middle))
     (nat (m_nMIDIResult (receiving_MIDI frame_sysex_middle))) =
   Accept (\<lparr>rtp_nFlags = 0x8061, rtp_nSequence = 0x1235, rtp_nTimestamp = 1,
            rtp_nSSRC = 0xCAFEBABE\<rparr>, 14, 3) \<and>
   declared_payload (m_MIDIBuffer (receiving_MIDI frame_sysex_middle)) =
     [0xF7, 0x11, 0x22, 0x33, 0xF0] \<and>
   0 < m_nMIDIResult (receiving_MIDI frame_sysex_middle) \<and>
   m_pReceiveHandler (receiving_MIDI frame_sysex_middle) \<and>
   ConnectedState_data (receiving_MIDI frame_sysex_middle) (quiet 2000) =
     Next ((receiving_MIDI frame_sysex_middle)\<lparr>m_nSequence := 0x1235\<rparr>)
          [ReceiveHandler [0x11, 0x22, 0x33]]"
proof -
  have p: "declared_payload (m_MIDIBuffer (receiving_MIDI frame_sysex_middle)) =
     [0xF7, 0x11, 0x22, 0x33, 0xF0]"
    by (simp add: declared_payload_def midi_list_def peek_def frame_sysex_middle_def
        scenario_defs nth_append)
  have f: "sysex_fixup_amended [0xF7, 0x11, 0x22, 0x33, 0xF0] = [0x11, 0x22, 0x33]"
    by (simp add: sysex_fixup_amended_def)
  have r: "0 < m_nMIDIResult (receiving_MIDI frame_sysex_middle) \<and>
     m_pReceiveHandler (receiving_MIDI frame_sysex_middle)"
    by (simp add: frame_sysex_middle_def scenario_defs)
  show ?thesis
    using sysex_fixup_delivered[OF ParseMIDIPacket_sysex_middle, of "quiet 2000"] r
    by (simp add: ParseMIDIPacket_sysex_middle p f)
qed

text \<open>
  Against C2 as stated: for the cancelled segment \<open>F7 11 F4\<close> the handler receives the
  single byte \<open>F7\<close>, not \<open>F4\<close>.
\<close>

theorem sysex_cancelled_counterexample:
  "declared_payload (m_MIDIBuffer (receiving_MIDI frame_sysex_cancelled)) = [0xF7, 0x11, 0xF4] \<and>
   sysex_fixup_claimed [0xF7, 0x11, 0xF4] = [0xF4] \<and>
   sysex_fixup_claimed [0xF7, 0x11, 0xF4] \<noteq> [0xF7] \<and>
   ConnectedState_data (receiving_MIDI frame_sysex_cancelled) (quiet 2000) =
     Next ((receiving_MIDI frame_sysex_cancelled)\<lparr>m_nSequence := 0x1236\<rparr>)
          [ReceiveHandler [0xF7]]"
  by (simp add: declared_payload_def sysex_fixup_claimed_def ConnectedState_data_def
      frame_sysex_cancelled_def scenario_defs ParseMIDIPacket_def midi_list_def
      sysex_fixup_def codec_defs nth_append)

section \<open>The region returned by ParseMIDIPacket\<close>

text \<open>
  The length subtractions never wrap, and the region returned lies inside the declared
  payload, hence inside the array.
\<close>

lemma fixup_stays_inside:
  assumes ml: "midi_list buf = Some (P, L)"
    and hd: "P < length buf"
    and tl: "P + unat L - 1 < length buf"
    and fx: "sysex_fixup P L (buf ! P) (buf ! (P + unat L - 1)) = (pOut, nOut)"
  shows "P \<le> pOut \<and> pOut + unat nOut \<le> P + unat L"
proof (cases "L = 0")
  case True
  with midi_list_empty ml
  have "buf ! (P - 1) \<noteq> 0xF0 \<and> buf ! (P - 1) \<noteq> 0xF7 \<and> buf ! (P - 1) \<noteq> 0xF4"
    by blast
  with fx True show ?thesis
    by (auto simp: sysex_fixup_def)
next
  case False
  then have n: "0 < unat L" by (simp add: unat_gt_0)
  have m1: "unat (L - 1) = unat L - 1"
    using False by (simp add: unat_minus_one)
  have m2: "unat (L - 2) = unat L - 2 \<and> 2 \<le> unat L" if "buf ! P \<noteq> buf ! (P + unat L - 1)"
  proof -
    from that n have "2 \<le> unat L" by (cases "unat L = 1") auto
    moreover from this have "2 \<le> L" by (simp add: word_le_nat_alt)
    ultimately show ?thesis by (simp add: unat_sub)
  qed
  from fx show ?thesis
    unfolding sysex_fixup_def using n m1 m2
    by (auto split: if_splits)
qed

lemma ParseMIDIPacket_inside_array:
  assumes "ParseMIDIPacket buf n = Accept (hdr, pOut, nOut)"
  shows "pOut + nOut \<le> length buf"
proof -
  from assms obtain P L nOut16 where
    ml: "midi_list buf = Some (P, L)" and b: "P < length buf" "P + unat L - 1 < length buf"
    and fx: "sysex_fixup P L (buf ! P) (buf ! (P + unat L - 1)) = (pOut, nOut16)"
    and n: "nOut = unat nOut16"
    by (rule ParseMIDIPacket_AcceptD)
  from fixup_stays_inside[OF ml b fx] b n show ?thesis
    by (cases "unat L = 0") auto
qed

text \<open>
  Claim C10 at a failing input. The region returned should lie within the first \<open>nSize\<close>
  bytes of the buffer. For the 13-byte datagram above \<open>ParseMIDIPacket\<close> returns offset 13
  and length 15: it never looks at \<open>nSize\<close>, and the receive handler is given the 15 bytes
  that follow the datagram in the array.
\<close>

theorem ParseMIDIPacket_ignores_nSize:
  "m_nMIDIResult (receiving_MIDI frame_short) = 13 \<and>
   ParseMIDIPacket (m_MIDIBuffer (receiving_MIDI frame_short))
     (nat (m_nMIDIResult (receiving_MIDI frame_short))) =
   Accept (\<lparr>rtp_nFlags = 0x8061, rtp_nSequence = 0x1237, rtp_nTimestamp = 1,
            rtp_nSSRC = 0xCAFEBABE\<rparr>, 13, 15) \<and>
   \<not> (13 + 15 \<le> nat (m_nMIDIResult (receiving_MIDI frame_short))) \<and>
   ConnectedState_data (receiving_MIDI frame_short) (quiet 2000) =
     Next ((receiving_MIDI frame_short)\<lparr>m_nSequence := 0x1237\<rparr>)
          [ReceiveHandler (replicate 15 0)]"
  by (simp add: frame_short_def scenario_defs ParseMIDIPacket_def ConnectedState_data_def midi_list_def
      sysex_fixup_def codec_defs nth_append)

section \<open>Signature and version checks\<close>

lemma ParseInvitationPacket_rejects:
  assumes "ntohs_at b 0 \<noteq> Some AppleMIDISignature \<or> ntohl_at b 4 \<noteq> Some (ucast AppleMIDIVersion)"
  shows "ParseInvitationPacket b n \<noteq> Accept f" "8 \<le> length b \<Longrightarrow> ParseInvitationPacket b n = Reject"
  using assms
  by (auto simp: ParseInvitationPacket_def reading_def Let_def ntohs_at_def ntohl_at_def
      split: option.splits if_splits)

lemma ParseEndSessionPacket_rejects:
  assumes "ntohs_at b 0 \<noteq> Some AppleMIDISignature \<or> ntohl_at b 4 \<noteq> Some (ucast AppleMIDIVersion)"
  shows "ParseEndSessionPacket b n \<noteq> Accept f" "8 \<le> length b \<Longrightarrow> ParseEndSessionPacket b n = Reject"
  using assms
  by (auto simp: ParseEndSessionPacket_def reading_def Let_def ntohs_at_def ntohl_at_def
      split: option.splits if_splits)

lemma ParseSyncPacket_rejects:
  assumes "ntohs_at b 0 \<noteq> Some AppleMIDISignature"
  shows "ParseSyncPacket b n \<noteq> Accept f" "2 \<le> length b \<Longrightarrow> ParseSyncPacket b n = Reject"
  using assms
  by (auto simp: ParseSyncPacket_def reading_def ntohs_at_def
      split: option.splits if_splits)

lemma ParseMIDIPacket_rejects:
  assumes "\<forall>nRTPFlags. ntohs_at b 0 = Some nRTPFlags \<longrightarrow> drop_bit 14 nRTPFlags AND 3 \<noteq> ucast RTPMIDIVersion"
  shows "ParseMIDIPacket b n \<noteq> Accept f" "2 \<le> length b \<Longrightarrow> ParseMIDIPacket b n = Reject"
  using assms
  by (auto simp: ParseMIDIPacket_def reading_def ntohs_at_def
      split: option.splits if_splits)

text \<open>
  Claim C8. With the signature read at offset 0 and the version at offset 4, the
  invitation and end-session decoders accept no buffer whose signature is not \<open>0xFFFF\<close> or
  whose version is not 2; the sync decoder, whose frame has no version field, accepts no
  buffer whose signature is not \<open>0xFFFF\<close>; the RTP-MIDI decoder, whose frame has no
  signature, accepts no buffer whose version bits are not 2. Whenever the array holds the
  fields, the result is the decoder's \<open>false\<close>.
\<close>

theorem decoders_reject_bad_signature_or_version:
  "(ntohs_at b 0 \<noteq> Some AppleMIDISignature \<or>
    ntohl_at b 4 \<noteq> Some (ucast AppleMIDIVersion) \<longrightarrow>
      (\<forall>f. ParseInvitationPacket b n \<noteq> Accept f) \<and>
      (\<forall>f. ParseEndSessionPacket b n \<noteq> Accept f) \<and>
      (8 \<le> length b \<longrightarrow>
         ParseInvitationPacket b n = Reject \<and> ParseEndSessionPacket b n = Reject)) \<and>
   (ntohs_at b 0 \<noteq> Some AppleMIDISignature \<longrightarrow>
      (\<forall>f. ParseSyncPacket b n \<noteq> Accept f) \<and>
      (2 \<le> length b \<longrightarrow> ParseSyncPacket b n = Reject)) \<and>
   ((\<forall>nRTPFlags. ntohs_at b 0 = Some nRTPFlags \<longrightarrow>
        drop_bit 14 nRTPFlags AND 3 \<noteq> ucast RTPMIDIVersion) \<longrightarrow>
      (\<forall>f. ParseMIDIPacket b n \<noteq> Accept f) \<and>
      (2 \<le> length b \<longrightarrow> ParseMIDIPacket b n = Reject))"
  using ParseInvitationPacket_rejects[of b n] ParseEndSessionPacket_rejects[of b n]
    ParseSyncPacket_rejects[of b n] ParseMIDIPacket_rejects[of b n]
  by blast

text \<open>The datagram with signature \<open>FFFE\<close> and version 3 is rejected by all four decoders.\<close>

theorem decoders_reject_bad_signature_or_version_witness:
  "ntohs_at frame_bad 0 = Some 0xFFFE \<and> ntohl_at frame_bad 4 = Some 3 \<and>
   length frame_bad = 36 \<and>
   ParseInvitationPacket frame_bad 36 = Reject \<and>
   ParseEndSessionPacket frame_bad 36 = Reject \<and>
   ParseSyncPacket frame_bad 36 = Reject \<and>
   ParseMIDIPacket frame_bad 36 = Reject"
proof -
  have r: "ntohs_at frame_bad 0 = Some 0xFFFE" "ntohl_at frame_bad 4 = Some 3"
    "length frame_bad = 36"
    by (simp_all add: frame_bad_def ntohs_at_def ntohl_at_def)
  have h: "ntohs_at frame_bad 0 \<noteq> Some AppleMIDISignature"
    "\<forall>nRTPFlags. ntohs_at frame_bad 0 = Some nRTPFlags \<longrightarrow>
       drop_bit 14 nRTPFlags AND 3 \<noteq> ucast RTPMIDIVersion"
    by (simp_all add: r AppleMIDISignature_def RTPMIDIVersion_def)
  show ?thesis
    using decoders_reject_bad_signature_or_version[of frame_bad 36] h r
    by simp
qed

section \<open>Encoding and decoding\<close>

lemma byte_lane:
  "push_bit k (ucast (ucast (drop_bit k w) :: u8)) = (w AND push_bit k (mask 8))"
  for w :: "'a::len word"
  by (rule bit_word_eqI) (auto simp: bit_simps)

lemma low_lane: "ucast (ucast w :: u8) = (w AND mask 8)" for w :: "'a::len word"
  using byte_lane[of 0 w] by simp

lemma ntohs_htons:
  "push_bit 8 (ucast (ucast (drop_bit 8 w) :: u8)) OR ucast (ucast w :: u8) = (w :: u16)"
  by (rule bit_word_eqI) (auto simp: bit_simps)

lemma ntohl_htonl:
  "push_bit 24 (ucast (ucast (drop_bit 24 w) :: u8)) OR
   push_bit 16 (ucast (ucast (drop_bit 16 w) :: u8)) OR
   push_bit 8 (ucast (ucast (drop_bit 8 w) :: u8)) OR ucast (ucast w :: u8) = (w :: u32)"
proof -
  have c: "push_bit 24 (mask 8) OR push_bit 16 (mask 8) OR push_bit 8 (mask 8) OR mask 8 =
      (- 1 :: u32)"
    by (simp add: mask_eq_exp_minus_1)
  show ?thesis
    unfolding byte_lane
    by (simp only: low_lane bit.conj_disj_distrib[symmetric] c) simp
qed

lemma ntohll_htonll:
  "push_bit 56 (ucast (ucast (drop_bit 56 w) :: u8)) OR
   push_bit 48 (ucast (ucast (drop_bit 48 w) :: u8)) OR
   push_bit 40 (ucast (ucast (drop_bit 40 w) :: u8)) OR
   push_bit 32 (ucast (ucast (drop_bit 32 w) :: u8)) OR
   push_bit 24 (ucast (ucast (drop_bit 24 w) :: u8)) OR
   push_bit 16 (ucast (ucast (drop_bit 16 w) :: u8)) OR
   push_bit 8 (ucast (ucast (drop_bit 8 w) :: u8)) OR ucast (ucast w :: u8) = (w :: u64)"
proof -
  have c: "push_bit 56 (mask 8) OR push_bit 48 (mask 8) OR push_bit 40 (mask 8) OR
      push_bit 32 (mask 8) OR push_bit 24 (mask 8) OR push_bit 16 (mask 8) OR
      push_bit 8 (mask 8) OR mask 8 = (- 1 :: u64)"
    by (simp add: mask_eq_exp_minus_1)
  show ?thesis
    unfolding byte_lane
    by (simp only: low_lane bit.conj_disj_distrib[symmetric] c) simp
qed

lemma ntohs_at_htons: "length a = i \<Longrightarrow> ntohs_at (a @ htons w @ r) i = Some w"
  by (simp add: ntohs_at_def htons_def nth_append ntohs_htons)

lemma ntohl_at_htonl: "length a = i \<Longrightarrow> ntohl_at (a @ htonl w @ r) i = Some w"
  by (simp add: ntohl_at_def htonl_def nth_append ntohl_htonl)

lemma ntohll_at_htonll: "length a = i \<Longrightarrow> ntohll_at (a @ htonll w @ r) i = Some w"
  by (simp add: ntohll_at_def htonll_def nth_append ntohll_htonll)


lemma SendSyncPacket_bytes:
  "sent_bytes (hd (snd (SendSyncPacket s t1 t2 r))) =
     htons AppleMIDISignature @ htons Sync @ htonl (m_nSSRC s) @ [1, 0, 0, 0] @
     htonll t1 @ htonll t2 @ [0, 0, 0, 0, 0, 0, 0, 0]"
  by (simp add: SendSyncPacket_def SendPacket_def sent_bytes_def htons_def htonl_def htonll_def
      eval_nat_numeral)

lemma ParseSyncPacket_SendSyncPacket:
  "ParseSyncPacket (sent_bytes (hd (snd (SendSyncPacket s t1 t2 r))) @ rest) 36 =
     Accept \<lparr>sync_nSignature = 0xFFFF, sync_nCommand = Sync, sync_nSSRC = m_nSSRC s,
             sync_nCount = 1, sync_nTimestamps = [t1, t2, 0]\<rparr>"
  unfolding SendSyncPacket_bytes
  by (simp add: ParseSyncPacket_def reading_def peek_def ntohs_at_def ntohl_at_def ntohll_at_def
      htons_def htonl_def htonll_def AppleMIDISignature_def Sync_def CommandWord_def
      ntohl_htonl ntohll_htonll)

lemma SendAcceptInvitationPacket_bytes:
  "sent_bytes (hd (snd (SendAcceptInvitationPacket s sock port r))) =
     htons AppleMIDISignature @ htons InvitationAccepted @ htonl 2 @
     htonl (m_nInitiatorToken s) @ htonl (m_nSSRC s) @ c_str ''mt32-pi''"
  by (simp add: SendAcceptInvitationPacket_def SendPacket_def sent_bytes_def htons_def htonl_def
      strncpy_def strlen_def c_str_def bytes_of_def AppleMIDIVersion_def Let_def)

lemma ParseInvitationPacket_SendAcceptInvitationPacket:
  "ParseInvitationPacket (sent_bytes (hd (snd (SendAcceptInvitationPacket s sock port r))) @ rest) n = Reject"
  unfolding SendAcceptInvitationPacket_bytes
  by (simp add: ParseInvitationPacket_def reading_def ntohs_at_def
      htons_def AppleMIDISignature_def InvitationAccepted_def Invitation_def CommandWord_def)

text \<open>
  Claim C9, as the code has it. The code encodes \<open>OK\<close>, \<open>CK\<close> and \<open>RS\<close> and decodes \<open>IN\<close>,
  \<open>BY\<close> and \<open>CK\<close>, so \<open>CK\<close> is the one kind with both directions: decoding the 36 bytes that
  \<open>SendSyncPacket\<close> sends, wherever they lie at the front of a receive array, gives back the
  signature, the command, the sender SSRC, the count 1 and the three timestamps. The \<open>OK\<close>
  frame that \<open>SendAcceptInvitationPacket\<close> sends is rejected by the invitation decoder,
  which accepts the command \<open>IN\<close> only.
\<close>

theorem sync_frame_roundtrip:
  "ParseSyncPacket (sent_bytes (hd (snd (SendSyncPacket s t1 t2 r))) @ rest) 36 =
     Accept \<lparr>sync_nSignature = AppleMIDISignature, sync_nCommand = Sync,
             sync_nSSRC = m_nSSRC s, sync_nCount = 1, sync_nTimestamps = [t1, t2, 0]\<rparr> \<and>
   ParseInvitationPacket
     (sent_bytes (hd (snd (SendAcceptInvitationPacket s sock port r'))) @ rest') n = Reject"
  by (simp add: ParseSyncPacket_SendSyncPacket ParseInvitationPacket_SendAcceptInvitationPacket
      AppleMIDISignature_def)

text \<open>
  Against C9 as stated, for the kind \<open>OK\<close>: the 24 bytes with which the connected session
  accepts an invitation do not decode.
\<close>

theorem accept_frame_roundtrip_counterexample:
  "sent_bytes (hd (snd (SendAcceptInvitationPacket connected_session m_pControlSocket 5004 24))) =
     [0xFF, 0xFF, 0x4F, 0x4B, 0, 0, 0, 2, 0xDE, 0xAD, 0xBE, 0xEF, 0x01, 0x23, 0x45, 0x67,
      0x6D, 0x74, 0x33, 0x32, 0x2D, 0x70, 0x69, 0] \<and>
   ParseInvitationPacket
     [0xFF, 0xFF, 0x4F, 0x4B, 0, 0, 0, 2, 0xDE, 0xAD, 0xBE, 0xEF, 0x01, 0x23, 0x45, 0x67,
      0x6D, 0x74, 0x33, 0x32, 0x2D, 0x70, 0x69, 0] 24 = Reject"
  by (simp add: SendAcceptInvitationPacket_def SendPacket_def sent_bytes_def strncpy_def
      strlen_def c_str_def bytes_of_def Let_def scenario_defs ParseInvitationPacket_def
      codec_defs)

section \<open>Sync packets in the connected state\<close>

lemma ConnectedState_blocks:
  assumes "ConnectedState_control s = Some False"
    and "ConnectedState_data s e = Next s1 sent1"
  shows "ConnectedState s e =
           Next (ConnectedState_timeout (fst (ConnectedState_feedback s1 e)) e)
                (sent1 @ snd (ConnectedState_feedback s1 e))"
  using assms by (simp add: ConnectedState_def split: prod.splits)

lemma ParseSyncPacket_not_MIDI:
  assumes "ParseSyncPacket buf n = Accept pkt"
  shows "ParseMIDIPacket buf n = Reject"
proof -
  from assms have "ntohs_at buf 0 = Some AppleMIDISignature"
    by (auto simp: ParseSyncPacket_def reading_def split: if_splits option.splits)
  then show ?thesis
    by (simp add: ParseMIDIPacket_def reading_def AppleMIDISignature_def RTPMIDIVersion_def)
qed

lemma wrap_sub:
  fixes a b M :: nat
  assumes "a < M" "b < M"
  shows "(a + M - b) mod M = (if b \<le> a then a - b else a + M - b)"
proof (cases "b \<le> a")
  case True
  then have "a + M - b = (a - b) + M" by simp
  then have "(a + M - b) mod M = (a - b) mod M" by simp
  moreover have "a - b < M" using assms by simp
  ultimately show ?thesis using True by simp
next
  case False
  then have "a + M - b < M" using assms by simp
  then show ?thesis using False by simp
qed

lemma offset_unsigned:
  fixes t1 t2 t3 :: u64
  shows "unat ((t3 + t1) div 2 - t2) =
     ((unat t3 + unat t1) mod 2 ^ 64 div 2 + 2 ^ 64 - unat t2) mod 2 ^ 64"
proof -
  have a: "unat ((t3 + t1) div 2) = (unat t3 + unat t1) mod 2 ^ 64 div 2"
    by (simp add: unat_div unat_word_ariths)
  have b: "unat (x - t2) = (unat x + 2 ^ 64 - unat t2) mod 2 ^ 64" for x :: u64
  proof -
    have "unat x < 2 ^ 64" "unat t2 < 2 ^ 64"
      using unsigned_less[of x, where 'a = nat] unsigned_less[of t2, where 'a = nat] by simp_all
    from wrap_sub[OF this] show ?thesis
      using unat_sub_if_size[of x t2] by (simp add: word_size)
  qed
  show ?thesis unfolding b a ..
qed


lemma ConnectedState_feedback_keeps_sync:
  "m_nOffsetEstimate (fst (ConnectedState_feedback s e)) = m_nOffsetEstimate s"
  "m_nLastSyncTime (fst (ConnectedState_feedback s e)) = m_nLastSyncTime s"
  by (simp_all add: ConnectedState_feedback_def Let_def)

text \<open>
  Claim C3. In a tick of the connected state that the initiator's end of session does not
  cut short, a sync packet with count 2 and the initiator's SSRC sets the offset estimate
  to \<open>((timestamp3 + timestamp1) / 2) - timestamp2\<close>, each operation that of 64-bit
  unsigned integers (sum and difference modulo \<open>2 ^ 64\<close>, the quotient rounded down). The
  estimate stands at the end of the tick, unless the sync timeout of the same tick resets
  the session.
\<close>

theorem offset_estimate_from_sync:
  assumes "ConnectedState_control s = Some False"
    and "0 < m_nMIDIResult s"
    and "ParseSyncPacket (m_MIDIBuffer s) (nat (m_nMIDIResult s)) = Accept SyncPacket"
    and "sync_nSSRC SyncPacket = m_nInitiatorSSRC s"
    and "sync_nCount SyncPacket = 2"
    and "sync_nTimestamps SyncPacket = [timestamp1, timestamp2, timestamp3]"
  shows "ConnectedState_data s e =
           Next (s\<lparr>m_nOffsetEstimate := (timestamp3 + timestamp1) div 2 - timestamp2,
                   m_nLastSyncTime := GetSyncClock e ClkSyncAccepted\<rparr>) [] \<and>
         map_option m_nOffsetEstimate (next_state (ConnectedState s e)) =
           Some (if GetSyncClock e ClkTick - GetSyncClock e ClkSyncAccepted > SyncTimeout
                 then 0
                 else (timestamp3 + timestamp1) div 2 - timestamp2) \<and>
         unat ((timestamp3 + timestamp1) div 2 - timestamp2) =
           ((unat timestamp3 + unat timestamp1) mod 2 ^ 64 div 2 + 2 ^ 64 - unat timestamp2)
           mod 2 ^ 64"
proof -
  let ?s1 = "s\<lparr>m_nOffsetEstimate := (timestamp3 + timestamp1) div 2 - timestamp2,
                m_nLastSyncTime := GetSyncClock e ClkSyncAccepted\<rparr>"
  have d: "ConnectedState_data s e = Next ?s1 []"
    using assms(2-6) ParseSyncPacket_not_MIDI[OF assms(3)]
    by (simp add: ConnectedState_data_def)
  have "map_option m_nOffsetEstimate (next_state (ConnectedState s e)) =
      Some (if GetSyncClock e ClkTick - GetSyncClock e ClkSyncAccepted > SyncTimeout
            then 0 else (timestamp3 + timestamp1) div 2 - timestamp2)"
    unfolding ConnectedState_blocks[OF assms(1) d]
    by (simp add: next_state_def ConnectedState_timeout_def ConnectedState_feedback_keeps_sync
        Reset_def)
  with d offset_unsigned show ?thesis by blast
qed

lemma ParseSyncPacket_frame_CK2:
  "ParseSyncPacket (m_MIDIBuffer (receiving_MIDI frame_CK2))
     (nat (m_nMIDIResult (receiving_MIDI frame_CK2))) =
   Accept \<lparr>sync_nSignature = 0xFFFF, sync_nCommand = 0x434B, sync_nSSRC = 0xCAFEBABE,
           sync_nCount = 2, sync_nTimestamps = [1000, 1040, 1200]\<rparr>"
  by (simp add: frame_CK2_def scenario_defs ParseSyncPacket_def codec_defs nth_append)

text \<open>
  Scenario 2: with timestamps 1000, 1040 and 1200 the offset estimate becomes
  \<open>(1200 + 1000) / 2 - 1040 = 60\<close>.
\<close>

theorem offset_estimate_from_sync_witness:
  "ConnectedState_control (receiving_MIDI frame_CK2) = Some False \<and>
   0 < m_nMIDIResult (receiving_MIDI frame_CK2) \<and>
   ParseSyncPacket (m_MIDIBuffer (receiving_MIDI frame_CK2))
     (nat (m_nMIDIResult (receiving_MIDI frame_CK2))) =
   Accept \<lparr>sync_nSignature = 0xFFFF, sync_nCommand = 0x434B, sync_nSSRC = 0xCAFEBABE,
           sync_nCount = 2, sync_nTimestamps = [1000, 1040, 1200]\<rparr> \<and>
   m_nInitiatorSSRC (receiving_MIDI frame_CK2) = 0xCAFEBABE \<and>
   ConnectedState_data (receiving_MIDI frame_CK2) (quiet 2000) =
     Next ((receiving_MIDI frame_CK2)\<lparr>m_nOffsetEstimate := 60, m_nLastSyncTime := 2000\<rparr>) [] \<and>
   map_option m_nOffsetEstimate (next_state (ConnectedState (receiving_MIDI frame_CK2) (quiet 2000))) =
     Some 60"
proof -
  have c: "ConnectedState_control (receiving_MIDI frame_CK2) = Some False"
    by (simp add: ConnectedState_control_def scenario_defs)
  have r: "0 < m_nMIDIResult (receiving_MIDI frame_CK2)"
    "m_nInitiatorSSRC (receiving_MIDI frame_CK2) = 0xCAFEBABE"
    by (simp_all add: frame_CK2_def scenario_defs)
  show ?thesis
    using offset_estimate_from_sync[OF c r(1) ParseSyncPacket_frame_CK2, of 1000 1040 1200 "quiet 2000"]
      c r ParseSyncPacket_frame_CK2
    by (simp add: quiet_def SyncTimeout_def)
qed

text \<open>
  Claim C4. In a tick of the connected state that the initiator's end of session does not
  cut short, a decoded sync packet with the initiator's SSRC and count 0 or 2 sets the last
  sync time to the clock reading taken on acceptance (it stands at the end of the tick
  unless the sync timeout of the same tick resets the session), count 0 also sending the
  reply; a decoded sync packet with another SSRC or count leaves the state as it was and
  sends nothing, so that the tick is the feedback and timeout blocks alone.
\<close>

theorem sync_packet_accepted_iff:
  assumes "ConnectedState_control s = Some False"
    and "0 < m_nMIDIResult s"
    and "ParseSyncPacket (m_MIDIBuffer s) (nat (m_nMIDIResult s)) = Accept SyncPacket"
  shows
    "(sync_nSSRC SyncPacket = m_nInitiatorSSRC s \<and>
      (sync_nCount SyncPacket = 0 \<or> sync_nCount SyncPacket = 2) \<longrightarrow>
        map_option m_nLastSyncTime (next_state (ConnectedState_data s e)) =
          Some (GetSyncClock e ClkSyncAccepted) \<and>
        map_option m_nLastSyncTime (next_state (ConnectedState s e)) =
          Some (if GetSyncClock e ClkTick - GetSyncClock e ClkSyncAccepted > SyncTimeout
                then 0 else GetSyncClock e ClkSyncAccepted) \<and>
        (sync_nCount SyncPacket = 0 \<longrightarrow>
           actions (ConnectedState_data s e) =
             snd (SendSyncPacket s (sync_nTimestamps SyncPacket ! 0)
                    (GetSyncClock e ClkSyncReply) (SendToResult e SendSync)))) \<and>
     (\<not> (sync_nSSRC SyncPacket = m_nInitiatorSSRC s \<and>
         (sync_nCount SyncPacket = 0 \<or> sync_nCount SyncPacket = 2)) \<longrightarrow>
        ConnectedState_data s e = Next s [] \<and>
        ConnectedState s e =
          Next (ConnectedState_timeout (fst (ConnectedState_feedback s e)) e)
               (snd (ConnectedState_feedback s e)))"
proof (cases "sync_nSSRC SyncPacket = m_nInitiatorSSRC s \<and>
      (sync_nCount SyncPacket = 0 \<or> sync_nCount SyncPacket = 2)")
  case True
  let ?now = "GetSyncClock e ClkSyncAccepted"
  from True assms(2,3) ParseSyncPacket_not_MIDI[OF assms(3)]
  obtain s1 sent1 where d: "ConnectedState_data s e = Next s1 sent1"
    and l: "m_nLastSyncTime s1 = ?now"
    and a: "sync_nCount SyncPacket = 0 \<longrightarrow>
       sent1 = snd (SendSyncPacket s (sync_nTimestamps SyncPacket ! 0)
                      (GetSyncClock e ClkSyncReply) (SendToResult e SendSync))"
    by (auto simp: ConnectedState_data_def)
  have "map_option m_nLastSyncTime (next_state (ConnectedState s e)) =
      Some (if GetSyncClock e ClkTick - ?now > SyncTimeout then 0 else ?now)"
    unfolding ConnectedState_blocks[OF assms(1) d]
    by (simp add: next_state_def ConnectedState_timeout_def ConnectedState_feedback_keeps_sync
        Reset_def l)
  moreover have "map_option m_nLastSyncTime (next_state (ConnectedState_data s e)) = Some ?now"
    by (simp add: d l next_state_def)
  moreover have "sync_nCount SyncPacket = 0 \<longrightarrow>
      actions (ConnectedState_data s e) =
        snd (SendSyncPacket s (sync_nTimestamps SyncPacket ! 0)
               (GetSyncClock e ClkSyncReply) (SendToResult e SendSync))"
    using a by (simp add: d actions_def)
  ultimately show ?thesis using True by blast
next
  case False
  with assms(2,3) ParseSyncPacket_not_MIDI[OF assms(3)]
  have d: "ConnectedState_data s e = Next s []"
    by (auto simp: ConnectedState_data_def)
  from ConnectedState_blocks[OF assms(1) d]
  have "ConnectedState s e =
      Next (ConnectedState_timeout (fst (ConnectedState_feedback s e)) e)
           (snd (ConnectedState_feedback s e))"
    by simp
  with False d show ?thesis by blast
qed

lemma ParseSyncPacket_frame_CK_stranger:
  "ParseSyncPacket (m_MIDIBuffer (receiving_MIDI frame_CK_stranger))
     (nat (m_nMIDIResult (receiving_MIDI frame_CK_stranger))) =
   Accept \<lparr>sync_nSignature = 0xFFFF, sync_nCommand = 0x434B, sync_nSSRC = 0x0BADF00D,
           sync_nCount = 2, sync_nTimestamps = [1000, 1040, 1200]\<rparr>"
  by (simp add: frame_CK_stranger_def scenario_defs ParseSyncPacket_def codec_defs nth_append)

lemma ParseSyncPacket_frame_CK0:
  "ParseSyncPacket (m_MIDIBuffer (receiving_MIDI frame_CK0))
     (nat (m_nMIDIResult (receiving_MIDI frame_CK0))) =
   Accept \<lparr>sync_nSignature = 0xFFFF, sync_nCommand = 0x434B, sync_nSSRC = 0xCAFEBABE,
           sync_nCount = 0, sync_nTimestamps = [1000, 0, 0]\<rparr>"
  by (simp add: frame_CK0_def scenario_defs ParseSyncPacket_def codec_defs nth_append)

lemma receiving_MIDI_fields:
  "ConnectedState_control (receiving_MIDI d) = Some False"
  "m_nInitiatorSSRC (receiving_MIDI d) = 0xCAFEBABE"
  "m_nLastSyncTime (receiving_MIDI d) = 1000"
  "m_nLastFeedbackTime (receiving_MIDI d) = 1000"
  "m_nSSRC (receiving_MIDI d) = 0x1234567"
  "m_nLastFeedbackSequence (receiving_MIDI d) = 0x1234"
  "m_nInitiatorMIDIPort (receiving_MIDI d) = 5005"
  "m_InitiatorIPAddress (receiving_MIDI d) = 0xC000020A"
  "m_pReceiveHandler (receiving_MIDI d)"
  by (simp_all add: ConnectedState_control_def scenario_defs)

text \<open>
  The peer's sync packet with count 0, received at clock reading 2000, sets the last sync
  time to 2000 and is answered; the sync packet of another sender changes nothing.
\<close>

theorem sync_packet_accepted_iff_witness:
  "ConnectedState_control (receiving_MIDI frame_CK0) = Some False \<and>
   0 < m_nMIDIResult (receiving_MIDI frame_CK0) \<and>
   m_nInitiatorSSRC (receiving_MIDI frame_CK0) = 0xCAFEBABE \<and>
   m_nLastSyncTime (receiving_MIDI frame_CK0) = 1000 \<and>
   map_option m_nLastSyncTime
     (next_state (ConnectedState (receiving_MIDI frame_CK0) (quiet 2000))) = Some 2000 \<and>
   actions (ConnectedState_data (receiving_MIDI frame_CK0) (quiet 2000)) =
     snd (SendSyncPacket (receiving_MIDI frame_CK0) 1000 2000 36) \<and>
   ConnectedState_control (receiving_MIDI frame_CK_stranger) = Some False \<and>
   0 < m_nMIDIResult (receiving_MIDI frame_CK_stranger) \<and>
   ConnectedState_data (receiving_MIDI frame_CK_stranger) (quiet 2000) =
     Next (receiving_MIDI frame_CK_stranger) []"
proof -
  have r: "0 < m_nMIDIResult (receiving_MIDI frame_CK0)"
    "0 < m_nMIDIResult (receiving_MIDI frame_CK_stranger)"
    by (simp_all add: frame_CK0_def frame_CK_stranger_def scenario_defs)
  show ?thesis
    using sync_packet_accepted_iff[OF receiving_MIDI_fields(1) r(1) ParseSyncPacket_frame_CK0,
        of "quiet 2000"]
      sync_packet_accepted_iff[OF receiving_MIDI_fields(1) r(2) ParseSyncPacket_frame_CK_stranger,
        of "quiet 2000"]
      r
    by (simp add: receiving_MIDI_fields quiet_def SyncTimeout_def)
qed

section \<open>Receiver feedback\<close>

lemma SendSyncPacket_not_feedback:
  "a \<in> set (snd (SendSyncPacket s t1 t2 r)) \<Longrightarrow> \<not> is_feedback a"
  by (simp add: SendSyncPacket_def SendPacket_def is_feedback_def ntohs_at_def htons_def
      Sync_def ReceiverFeedback_def CommandWord_def)

lemma ConnectedState_data_not_feedback:
  assumes "ConnectedState_data s e = Next s1 sent1" "a \<in> set sent1"
  shows "\<not> is_feedback a"
  using assms SendSyncPacket_not_feedback
  by (auto simp: ConnectedState_data_def is_feedback_def
      split: if_splits parse.splits prod.splits)

lemma ConnectedState_data_SSRC:
  "ConnectedState_data s e = Next s1 sent1 \<Longrightarrow> m_nSSRC s1 = m_nSSRC s"
  by (auto simp: ConnectedState_data_def split: if_splits parse.splits prod.splits)

lemma SendFeedbackPacket_sent:
  "snd (SendFeedbackPacket s r) =
     [SendTo m_pControlSocket (m_InitiatorIPAddress s) (m_nInitiatorMIDIPort s)
        (htons AppleMIDISignature @ htons ReceiverFeedback @ htonl (m_nSSRC s) @
         htonl (push_bit 16 (ucast (m_nSequence s))))]"
  by (simp add: SendFeedbackPacket_def SendPacket_def htons_def htonl_def)

lemma feedback_fields:
  fixes ssrc v :: u32
  defines "d \<equiv> htons AppleMIDISignature @ htons ReceiverFeedback @ htonl ssrc @ htonl v"
  shows "length d = 12" "ntohs_at d 0 = Some AppleMIDISignature"
    "ntohs_at d 2 = Some ReceiverFeedback" "ntohl_at d 4 = Some ssrc" "ntohl_at d 8 = Some v"
proof -
  show "length d = 12" by (simp add: d_def htons_def htonl_def)
  show "ntohs_at d 0 = Some AppleMIDISignature"
    unfolding d_def using ntohs_at_htons[of "[]" 0] by simp
  show "ntohs_at d 2 = Some ReceiverFeedback"
    unfolding d_def using ntohs_at_htons[of "htons AppleMIDISignature" 2]
    by (simp add: htons_def)
  show "ntohl_at d 4 = Some ssrc"
    unfolding d_def
    using ntohl_at_htonl[of "htons AppleMIDISignature @ htons ReceiverFeedback" 4]
    by (simp add: htons_def)
  show "ntohl_at d 8 = Some v"
    unfolding d_def
    using ntohl_at_htonl[of "htons AppleMIDISignature @ htons ReceiverFeedback @ htonl ssrc" 8 v "[]"]
    by (simp add: htons_def htonl_def)
qed

lemma sequence_in_high_half:
  fixes q :: u16
  shows "ucast (drop_bit 16 (push_bit 16 (ucast q) :: u32)) = q"
    and "take_bit 16 (push_bit 16 (ucast q) :: u32) = 0"
  by (rule bit_word_eqI; auto simp: bit_simps)+


lemma ConnectedState_ended:
  assumes "ConnectedState_control s \<noteq> Some False \<or> next_state (ConnectedState_data s e) = None"
  shows "actions (ConnectedState s e) = []"
proof (cases "ConnectedState_control s")
  case (Some b)
  show ?thesis
  proof (cases b)
    case True
    with Some show ?thesis by (simp add: ConnectedState_def actions_def)
  next
    case False
    with Some assms have "next_state (ConnectedState_data s e) = None" by simp
    with Some False show ?thesis
      by (simp add: ConnectedState_def actions_def next_state_def split: outcome.splits)
  qed
qed (simp_all add: ConnectedState_def actions_def)

lemma ConnectedState_tick_state:
  assumes "ConnectedState_control s = Some False"
    and "ConnectedState_data s e = Next s1 sent1"
  shows "next_state (ConnectedState s e) =
     Some (if SyncTimeout < GetSyncClock e ClkTick - m_nLastSyncTime s1
           then Reset (fst (ConnectedState_feedback s1 e))
           else fst (ConnectedState_feedback s1 e))"
  unfolding ConnectedState_blocks[OF assms]
  by (simp add: next_state_def ConnectedState_timeout_def ConnectedState_feedback_keeps_sync)

lemma ConnectedState_feedback_due:
  assumes "10000 < GetSyncClock e ClkTick - m_nLastFeedbackTime s1"
  shows "m_nLastFeedbackTime (fst (ConnectedState_feedback s1 e)) = GetSyncClock e ClkTick"
    and "m_nLastFeedbackSequence (fst (ConnectedState_feedback s1 e)) = m_nSequence s1"
  using assms
  by (simp_all add: ConnectedState_feedback_def ReceiverFeedbackPeriod_def Let_def)

lemma ConnectedState_feedback_not_due:
  assumes "\<not> 10000 < GetSyncClock e ClkTick - m_nLastFeedbackTime s1"
  shows "ConnectedState_feedback s1 e = (s1, [])"
  using assms by (simp add: ConnectedState_feedback_def ReceiverFeedbackPeriod_def)

text \<open>
  Claim C5. A tick of the connected state that ends early sends nothing. Otherwise, with
  \<open>s1\<close> the state after the data block: that block sends no \<open>RS\<close> frame; the feedback
  block sends nothing while the sequence number equals the last one reported, and nothing
  and changes nothing unless more than 10000 clock units have passed since the last
  feedback time; when they have, the last feedback time becomes the reading of the tick
  whether or not a frame is sent; and when it sends, it sends one datagram of 12 bytes to
  the initiator's MIDI port carrying the signature, the command \<open>RS\<close>, the local SSRC and
  a sequence field whose high 16 bits are the sequence number and whose low 16 bits are 0.
  The state the tick returns is the state the feedback block leaves, reset when the sync
  timeout of the same tick fires: on a due tick its last feedback time is the reading of
  the tick and its last feedback sequence the sequence number (both 0 after the reset),
  and on any other tick it is the state after the data block (or its reset).
\<close>

theorem receiver_feedback_cadence:
  "(ConnectedState_control s \<noteq> Some False \<or> next_state (ConnectedState_data s e) = None \<longrightarrow>
      actions (ConnectedState s e) = []) \<and>
   (ConnectedState_control s = Some False \<and> ConnectedState_data s e = Next s1 sent1 \<longrightarrow>
      actions (ConnectedState s e) = sent1 @ snd (ConnectedState_feedback s1 e) \<and>
      next_state (ConnectedState s e) =
        Some (if SyncTimeout < GetSyncClock e ClkTick - m_nLastSyncTime s1
              then Reset (fst (ConnectedState_feedback s1 e))
              else fst (ConnectedState_feedback s1 e)) \<and>
      (\<forall>a \<in> set sent1. \<not> is_feedback a) \<and>
      m_nSSRC s1 = m_nSSRC s \<and>
      (m_nSequence s1 = m_nLastFeedbackSequence s1 \<longrightarrow>
         snd (ConnectedState_feedback s1 e) = []) \<and>
      (\<not> 10000 < GetSyncClock e ClkTick - m_nLastFeedbackTime s1 \<longrightarrow>
         ConnectedState_feedback s1 e = (s1, []) \<and>
         next_state (ConnectedState s e) =
           Some (if SyncTimeout < GetSyncClock e ClkTick - m_nLastSyncTime s1
                 then Reset s1 else s1)) \<and>
      (10000 < GetSyncClock e ClkTick - m_nLastFeedbackTime s1 \<longrightarrow>
         m_nLastFeedbackTime (fst (ConnectedState_feedback s1 e)) = GetSyncClock e ClkTick \<and>
         m_nLastFeedbackSequence (fst (ConnectedState_feedback s1 e)) = m_nSequence s1 \<and>
         map_option m_nLastFeedbackTime (next_state (ConnectedState s e)) =
           Some (if SyncTimeout < GetSyncClock e ClkTick - m_nLastSyncTime s1
                 then 0 else GetSyncClock e ClkTick) \<and>
         map_option m_nLastFeedbackSequence (next_state (ConnectedState s e)) =
           Some (if SyncTimeout < GetSyncClock e ClkTick - m_nLastSyncTime s1
                 then 0 else m_nSequence s1)) \<and>
      (10000 < GetSyncClock e ClkTick - m_nLastFeedbackTime s1 \<and>
       m_nSequence s1 \<noteq> m_nLastFeedbackSequence s1 \<longrightarrow>
         snd (ConnectedState_feedback s1 e) =
           [SendTo m_pControlSocket (m_InitiatorIPAddress s1) (m_nInitiatorMIDIPort s1)
              (sent_bytes (hd (snd (ConnectedState_feedback s1 e))))] \<and>
         length (sent_bytes (hd (snd (ConnectedState_feedback s1 e)))) = 12 \<and>
         ntohs_at (sent_bytes (hd (snd (ConnectedState_feedback s1 e)))) 0 =
           Some AppleMIDISignature \<and>
         ntohs_at (sent_bytes (hd (snd (ConnectedState_feedback s1 e)))) 2 =
           Some ReceiverFeedback \<and>
         ntohl_at (sent_bytes (hd (snd (ConnectedState_feedback s1 e)))) 4 =
           Some (m_nSSRC s1) \<and>
         ntohl_at (sent_bytes (hd (snd (ConnectedState_feedback s1 e)))) 8 =
           Some (push_bit 16 (ucast (m_nSequence s1))) \<and>
         ucast (drop_bit 16 (push_bit 16 (ucast (m_nSequence s1)) :: u32)) = m_nSequence s1 \<and>
         take_bit 16 (push_bit 16 (ucast (m_nSequence s1)) :: u32) = 0))"
proof (intro conjI impI)
  assume "ConnectedState_control s \<noteq> Some False \<or> next_state (ConnectedState_data s e) = None"
  then show "actions (ConnectedState s e) = []" by (rule ConnectedState_ended)
next
  assume a: "ConnectedState_control s = Some False \<and> ConnectedState_data s e = Next s1 sent1"
  then show "actions (ConnectedState s e) = sent1 @ snd (ConnectedState_feedback s1 e)"
    using ConnectedState_blocks[of s e s1 sent1] by (simp add: actions_def)
  from a show "next_state (ConnectedState s e) =
      Some (if SyncTimeout < GetSyncClock e ClkTick - m_nLastSyncTime s1
            then Reset (fst (ConnectedState_feedback s1 e))
            else fst (ConnectedState_feedback s1 e))"
    using ConnectedState_tick_state by blast
  from a show "\<forall>a \<in> set sent1. \<not> is_feedback a"
    using ConnectedState_data_not_feedback by blast
  from a show "m_nSSRC s1 = m_nSSRC s"
    using ConnectedState_data_SSRC by blast
next
  assume "m_nSequence s1 = m_nLastFeedbackSequence s1"
  then show "snd (ConnectedState_feedback s1 e) = []"
    by (simp add: ConnectedState_feedback_def Let_def)
next
  assume "\<not> 10000 < GetSyncClock e ClkTick - m_nLastFeedbackTime s1"
  then show "ConnectedState_feedback s1 e = (s1, [])"
    by (rule ConnectedState_feedback_not_due)
next
  assume a: "ConnectedState_control s = Some False \<and> ConnectedState_data s e = Next s1 sent1"
    and n: "\<not> 10000 < GetSyncClock e ClkTick - m_nLastFeedbackTime s1"
  from a have "next_state (ConnectedState s e) =
      Some (if SyncTimeout < GetSyncClock e ClkTick - m_nLastSyncTime s1
            then Reset (fst (ConnectedState_feedback s1 e))
            else fst (ConnectedState_feedback s1 e))"
    using ConnectedState_tick_state by blast
  then show "next_state (ConnectedState s e) =
      Some (if SyncTimeout < GetSyncClock e ClkTick - m_nLastSyncTime s1 then Reset s1 else s1)"
    by (simp add: ConnectedState_feedback_not_due[OF n])
next
  assume "10000 < GetSyncClock e ClkTick - m_nLastFeedbackTime s1"
  then show "m_nLastFeedbackTime (fst (ConnectedState_feedback s1 e)) = GetSyncClock e ClkTick"
    and "m_nLastFeedbackSequence (fst (ConnectedState_feedback s1 e)) = m_nSequence s1"
    by (rule ConnectedState_feedback_due)+
next
  assume a: "ConnectedState_control s = Some False \<and> ConnectedState_data s e = Next s1 sent1"
    and d: "10000 < GetSyncClock e ClkTick - m_nLastFeedbackTime s1"
  from a have t: "next_state (ConnectedState s e) =
      Some (if SyncTimeout < GetSyncClock e ClkTick - m_nLastSyncTime s1
            then Reset (fst (ConnectedState_feedback s1 e))
            else fst (ConnectedState_feedback s1 e))"
    using ConnectedState_tick_state by blast
  show "map_option m_nLastFeedbackTime (next_state (ConnectedState s e)) =
      Some (if SyncTimeout < GetSyncClock e ClkTick - m_nLastSyncTime s1
            then 0 else GetSyncClock e ClkTick)"
    unfolding t by (simp add: ConnectedState_feedback_due[OF d] Reset_def)
  show "map_option m_nLastFeedbackSequence (next_state (ConnectedState s e)) =
      Some (if SyncTimeout < GetSyncClock e ClkTick - m_nLastSyncTime s1
            then 0 else m_nSequence s1)"
    unfolding t by (simp add: ConnectedState_feedback_due[OF d] Reset_def)
next
  assume "10000 < GetSyncClock e ClkTick - m_nLastFeedbackTime s1 \<and>
    m_nSequence s1 \<noteq> m_nLastFeedbackSequence s1"
  then have f: "snd (ConnectedState_feedback s1 e) =
      [SendTo m_pControlSocket (m_InitiatorIPAddress s1) (m_nInitiatorMIDIPort s1)
         (htons AppleMIDISignature @ htons ReceiverFeedback @ htonl (m_nSSRC s1) @
          htonl (push_bit 16 (ucast (m_nSequence s1))))]"
    by (simp add: ConnectedState_feedback_def ReceiverFeedbackPeriod_def SendFeedbackPacket_sent)
  then have b: "sent_bytes (hd (snd (ConnectedState_feedback s1 e))) =
      htons AppleMIDISignature @ htons ReceiverFeedback @ htonl (m_nSSRC s1) @
      htonl (push_bit 16 (ucast (m_nSequence s1)))"
    by (simp add: sent_bytes_def)
  show "snd (ConnectedState_feedback s1 e) =
      [SendTo m_pControlSocket (m_InitiatorIPAddress s1) (m_nInitiatorMIDIPort s1)
         (sent_bytes (hd (snd (ConnectedState_feedback s1 e))))]"
    unfolding b by (rule f)
  show "length (sent_bytes (hd (snd (ConnectedState_feedback s1 e)))) = 12"
    and "ntohs_at (sent_bytes (hd (snd (ConnectedState_feedback s1 e)))) 0 =
      Some AppleMIDISignature"
    and "ntohs_at (sent_bytes (hd (snd (ConnectedState_feedback s1 e)))) 2 =
      Some ReceiverFeedback"
    and "ntohl_at (sent_bytes (hd (snd (ConnectedState_feedback s1 e)))) 4 = Some (m_nSSRC s1)"
    and "ntohl_at (sent_bytes (hd (snd (ConnectedState_feedback s1 e)))) 8 =
      Some (push_bit 16 (ucast (m_nSequence s1)))"
    unfolding b by (rule feedback_fields)+
  show "ucast (drop_bit 16 (push_bit 16 (ucast (m_nSequence s1)) :: u32)) = m_nSequence s1"
    and "take_bit 16 (push_bit 16 (ucast (m_nSequence s1)) :: u32) = 0"
    by (rule sequence_in_high_half)+
qed

text \<open>
  Scenario 4: at clock reading 12000, with sequence number \<open>0x1234\<close> not yet reported, the
  feedback frame carries the local SSRC and the sequence field \<open>0x12340000\<close>, and the tick
  returns the session with last feedback sequence \<open>0x1234\<close> and last feedback time 12000;
  with \<open>0x1234\<close> already reported nothing is sent and the tick returns the session with
  last feedback time 12000.
\<close>

theorem receiver_feedback_cadence_witness:
  "ConnectedState_control feedback_due = Some False \<and>
   ConnectedState_data feedback_due (quiet 12000) = Next feedback_due [] \<and>
   10000 < GetSyncClock (quiet 12000) ClkTick - m_nLastFeedbackTime feedback_due \<and>
   m_nSequence feedback_due \<noteq> m_nLastFeedbackSequence feedback_due \<and>
   actions (ConnectedState feedback_due (quiet 12000)) =
     [SendTo m_pControlSocket 0xC000020A 5005
        [0xFF, 0xFF, 0x52, 0x53, 0x01, 0x23, 0x45, 0x67, 0x12, 0x34, 0, 0]] \<and>
   map_option m_nLastFeedbackTime (next_state (ConnectedState feedback_due (quiet 12000))) =
     Some 12000 \<and>
   map_option m_nLastFeedbackSequence (next_state (ConnectedState feedback_due (quiet 12000))) =
     Some 0x1234 \<and>
   ConnectedState_control connected_session = Some False \<and>
   ConnectedState_data connected_session (quiet 12000) = Next connected_session [] \<and>
   m_nSequence connected_session = m_nLastFeedbackSequence connected_session \<and>
   actions (ConnectedState connected_session (quiet 12000)) = [] \<and>
   m_nLastFeedbackTime (fst (ConnectedState_feedback connected_session (quiet 12000))) = 12000 \<and>
   map_option m_nLastFeedbackTime (next_state (ConnectedState connected_session (quiet 12000))) =
     Some 12000 \<and>
   ConnectedState_control connected_session = Some False \<and>
   ConnectedState_data connected_session (quiet 5000) = Next connected_session [] \<and>
   \<not> 10000 < GetSyncClock (quiet 5000) ClkTick - m_nLastFeedbackTime connected_session \<and>
   next_state (ConnectedState connected_session (quiet 5000)) = Some connected_session"
proof -
  have c: "ConnectedState_control feedback_due = Some False"
    "ConnectedState_control connected_session = Some False"
    by (simp_all add: ConnectedState_control_def feedback_due_def scenario_defs)
  have d: "ConnectedState_data feedback_due (quiet 12000) = Next feedback_due []"
    "ConnectedState_data connected_session (quiet 12000) = Next connected_session []"
    "ConnectedState_data connected_session (quiet 5000) = Next connected_session []"
    by (simp_all add: ConnectedState_data_def feedback_due_def scenario_defs)
  have t: "10000 < GetSyncClock (quiet 12000) ClkTick - m_nLastFeedbackTime feedback_due"
    "10000 < GetSyncClock (quiet 12000) ClkTick - m_nLastFeedbackTime connected_session"
    "m_nSequence feedback_due \<noteq> m_nLastFeedbackSequence feedback_due"
    "m_nSequence connected_session = m_nLastFeedbackSequence connected_session"
    "\<not> 10000 < GetSyncClock (quiet 5000) ClkTick - m_nLastFeedbackTime connected_session"
    by (simp_all add: feedback_due_def scenario_defs)
  have l: "\<not> SyncTimeout < GetSyncClock (quiet 12000) ClkTick - m_nLastSyncTime feedback_due"
    "\<not> SyncTimeout < GetSyncClock (quiet 12000) ClkTick - m_nLastSyncTime connected_session"
    "\<not> SyncTimeout < GetSyncClock (quiet 5000) ClkTick - m_nLastSyncTime connected_session"
    "m_nSequence feedback_due = 0x1234"
    by (simp_all add: feedback_due_def scenario_defs SyncTimeout_def)
  have f: "snd (ConnectedState_feedback feedback_due (quiet 12000)) =
     [SendTo m_pControlSocket 0xC000020A 5005
        [0xFF, 0xFF, 0x52, 0x53, 0x01, 0x23, 0x45, 0x67, 0x12, 0x34, 0, 0]]"
    by (simp add: ConnectedState_feedback_def SendFeedbackPacket_def SendPacket_def
        ReceiverFeedbackPeriod_def feedback_due_def scenario_defs codec_defs)
  from receiver_feedback_cadence[of feedback_due "quiet 12000" feedback_due "[]"] c(1) d(1) t(1)
  have 1: "actions (ConnectedState feedback_due (quiet 12000)) =
      [] @ snd (ConnectedState_feedback feedback_due (quiet 12000))"
    "map_option m_nLastFeedbackTime (next_state (ConnectedState feedback_due (quiet 12000))) =
      Some (if SyncTimeout < GetSyncClock (quiet 12000) ClkTick - m_nLastSyncTime feedback_due
            then 0 else GetSyncClock (quiet 12000) ClkTick)"
    "map_option m_nLastFeedbackSequence (next_state (ConnectedState feedback_due (quiet 12000))) =
      Some (if SyncTimeout < GetSyncClock (quiet 12000) ClkTick - m_nLastSyncTime feedback_due
            then 0 else m_nSequence feedback_due)"
    by blast+
  from receiver_feedback_cadence[of connected_session "quiet 12000" connected_session "[]"]
    c(2) d(2) t(2,4)
  have 2: "actions (ConnectedState connected_session (quiet 12000)) =
      [] @ snd (ConnectedState_feedback connected_session (quiet 12000))"
    "snd (ConnectedState_feedback connected_session (quiet 12000)) = []"
    "m_nLastFeedbackTime (fst (ConnectedState_feedback connected_session (quiet 12000))) =
      GetSyncClock (quiet 12000) ClkTick"
    "map_option m_nLastFeedbackTime (next_state (ConnectedState connected_session (quiet 12000))) =
      Some (if SyncTimeout < GetSyncClock (quiet 12000) ClkTick - m_nLastSyncTime connected_session
            then 0 else GetSyncClock (quiet 12000) ClkTick)"
    by blast+
  from receiver_feedback_cadence[of connected_session "quiet 5000" connected_session "[]"]
    c(2) d(3) t(5)
  have 3: "next_state (ConnectedState connected_session (quiet 5000)) =
      Some (if SyncTimeout < GetSyncClock (quiet 5000) ClkTick - m_nLastSyncTime connected_session
            then Reset connected_session else connected_session)"
    by blast
  have q: "GetSyncClock (quiet 12000) ClkTick = 12000"
    by (simp add: quiet_def)
  have 4: "map_option m_nLastFeedbackTime
        (next_state (ConnectedState feedback_due (quiet 12000))) = Some 12000"
    "map_option m_nLastFeedbackSequence
        (next_state (ConnectedState feedback_due (quiet 12000))) = Some 0x1234"
    using 1(2,3) l q by simp_all
  have 5: "map_option m_nLastFeedbackTime
        (next_state (ConnectedState connected_session (quiet 12000))) = Some 12000"
    using 2(4) l q by simp
  have 6: "next_state (ConnectedState connected_session (quiet 5000)) = Some connected_session"
    using 3 l by simp
  have 7: "actions (ConnectedState feedback_due (quiet 12000)) =
      [SendTo m_pControlSocket 0xC000020A 5005
         [0xFF, 0xFF, 0x52, 0x53, 0x01, 0x23, 0x45, 0x67, 0x12, 0x34, 0, 0]]"
    "actions (ConnectedState connected_session (quiet 12000)) = []"
    "m_nLastFeedbackTime (fst (ConnectedState_feedback connected_session (quiet 12000))) = 12000"
    using 1(1) 2(1,2,3) f q by simp_all
  show ?thesis
    by (intro conjI c d t 4 5 6 7)
qed

section \<open>Failed sends\<close>

lemma SendAcceptInvitationPacket_result:
  "fst (SendAcceptInvitationPacket s sock port r) = (\<not> send_failed r 24)"
  by (simp add: SendAcceptInvitationPacket_def SendPacket_def send_failed_def strncpy_def
      strlen_def c_str_def bytes_of_def Let_def)

lemma SendSyncPacket_sent:
  "snd (SendSyncPacket s t1 t2 r) =
     [SendTo m_pControlSocket (m_InitiatorIPAddress s) (m_nInitiatorMIDIPort s)
        (htons AppleMIDISignature @ htons Sync @ htonl (m_nSSRC s) @ [1, 0, 0, 0] @
         htonll t1 @ htonll t2 @ [0, 0, 0, 0, 0, 0, 0, 0])]"
  by (simp add: SendSyncPacket_def SendPacket_def htons_def htonl_def htonll_def
      eval_nat_numeral)

lemma ConnectedState_ignores_results:
  "ConnectedState s (e\<lparr>SendToResult := r\<rparr>) = ConnectedState s e"
proof -
  have d: "ConnectedState_data s (e\<lparr>SendToResult := r\<rparr>) = ConnectedState_data s e"
    by (simp add: ConnectedState_data_def SendSyncPacket_sent split: parse.splits prod.splits)
  have f: "ConnectedState_feedback s1 (e\<lparr>SendToResult := r\<rparr>) = ConnectedState_feedback s1 e"
    for s1
    by (simp add: ConnectedState_feedback_def SendFeedbackPacket_sent Let_def)
  have t: "ConnectedState_timeout s2 (e\<lparr>SendToResult := r\<rparr>) = ConnectedState_timeout s2 e"
    for s2
    by (simp add: ConnectedState_timeout_def Let_def)
  show ?thesis
    by (simp add: ConnectedState_def d f t
        split: option.splits bool.splits outcome.splits prod.splits)
qed

text \<open>
  Claim C7, as the code has it. When the send of the acceptance fails: in
  \<open>ControlInvitationState\<close> the state is the one in which the send was attempted, that is
  the state before the tick with the token, the initiator SSRC and the local SSRC already
  stored, and nothing else changed; in \<open>MIDIInvitationState\<close> the session is reset. In
  \<open>ConnectedState\<close> the results of the sends are not looked at: the tick is the same
  whatever they are.
\<close>

theorem send_failure_effects:
  "(m_nControlResult s \<noteq> 0 \<and>
    ParseInvitationPacket (m_ControlBuffer s) (nat (m_nControlResult s)) = Accept InvitationPacket \<and>
    send_failed (SendToResult e SendAccept) 24 \<longrightarrow>
      next_state (ControlInvitationState s e) =
        Some (s\<lparr>m_nInitiatorToken := inv_nInitiatorToken InvitationPacket,
                 m_nInitiatorSSRC := inv_nSSRC InvitationPacket,
                 m_nSSRC := GetNumber e\<rparr>)) \<and>
   (0 < m_nMIDIResult s \<and>
    ParseInvitationPacket (m_MIDIBuffer s) (nat (m_nMIDIResult s)) = Accept InvitationPacket \<and>
    send_failed (SendToResult e SendAccept) 24 \<longrightarrow>
      next_state (MIDIInvitationState s e) = Some (Reset s)) \<and>
   ConnectedState s (e\<lparr>SendToResult := r\<rparr>) = ConnectedState s e"
  by (simp add: ControlInvitationState_def MIDIInvitationState_def next_state_def Let_def
      SendAcceptInvitationPacket_result ConnectedState_ignores_results)


lemma ParseInvitationPacket_frame_IN:
  "ParseInvitationPacket (frame_IN @ replicate 1579 0) 21 =
     Accept \<lparr>inv_nSignature = 0xFFFF, inv_nCommand = 0x494E, inv_nVersion = 2,
             inv_nInitiatorToken = 0xDEADBEEF, inv_nSSRC = 0xCAFEBABE,
             inv_Name = [0x68, 0x6F, 0x73, 0x74] @ replicate 252 0\<rparr>"
  by (simp add: frame_IN_def ParseInvitationPacket_def strncpy_def strncpy_overruns_def
      codec_defs nth_append)

text \<open>
  The invitation of scenario 1 with every send failing: on the control port the
  participant keeps token and SSRCs and stays in \<open>ControlInvitation\<close>; on the MIDI port it
  is reset.
\<close>

theorem send_failure_effects_witness:
  "m_nControlResult invited_on_control \<noteq> 0 \<and>
   send_failed (SendToResult (would_block (quiet 2000)) SendAccept) 24 \<and>
   next_state (ControlInvitationState invited_on_control (would_block (quiet 2000))) =
     Some (invited_on_control\<lparr>m_nInitiatorToken := 0xDEADBEEF,
             m_nInitiatorSSRC := 0xCAFEBABE, m_nSSRC := 0x1234567\<rparr>) \<and>
   0 < m_nMIDIResult invited_on_MIDI \<and>
   next_state (MIDIInvitationState invited_on_MIDI (would_block (quiet 2000))) =
     Some (Reset invited_on_MIDI)"
proof -
  have c: "m_nControlResult invited_on_control \<noteq> 0"
    "ParseInvitationPacket (m_ControlBuffer invited_on_control)
       (nat (m_nControlResult invited_on_control)) =
     Accept \<lparr>inv_nSignature = 0xFFFF, inv_nCommand = 0x494E, inv_nVersion = 2,
             inv_nInitiatorToken = 0xDEADBEEF, inv_nSSRC = 0xCAFEBABE,
             inv_Name = [0x68, 0x6F, 0x73, 0x74] @ replicate 252 0\<rparr>"
    by (simp_all add: invited_on_control_def Constructor_def ParseInvitationPacket_frame_IN)
  have m: "0 < m_nMIDIResult invited_on_MIDI"
    "ParseInvitationPacket (m_MIDIBuffer invited_on_MIDI)
       (nat (m_nMIDIResult invited_on_MIDI)) =
     Accept \<lparr>inv_nSignature = 0xFFFF, inv_nCommand = 0x494E, inv_nVersion = 2,
             inv_nInitiatorToken = 0xDEADBEEF, inv_nSSRC = 0xCAFEBABE,
             inv_Name = [0x68, 0x6F, 0x73, 0x74] @ replicate 252 0\<rparr>"
    by (simp_all add: invited_on_MIDI_def Constructor_def ParseInvitationPacket_frame_IN)
  have f: "send_failed (SendToResult (would_block (quiet 2000)) SendAccept) 24"
    "GetNumber (would_block (quiet 2000)) = 0x1234567"
    by (simp_all add: send_failed_def would_block_def quiet_def)
  from send_failure_effects[of invited_on_control _ "would_block (quiet 2000)"] c f(1)
  have 1: "next_state (ControlInvitationState invited_on_control (would_block (quiet 2000))) =
      Some (invited_on_control\<lparr>m_nInitiatorToken := 0xDEADBEEF,
              m_nInitiatorSSRC := 0xCAFEBABE,
              m_nSSRC := GetNumber (would_block (quiet 2000))\<rparr>)"
    by fastforce
  from send_failure_effects[of invited_on_MIDI _ "would_block (quiet 2000)"] m f(1)
  have 2: "next_state (MIDIInvitationState invited_on_MIDI (would_block (quiet 2000))) =
      Some (Reset invited_on_MIDI)"
    by fastforce
  show ?thesis
    using 1 2 c(1) m(1) f by simp
qed

text \<open>
  Against C7 as stated: in \<open>MIDIInvitation\<close>, with the invitation received on the MIDI port
  and the send of the acceptance failing with \<open>-1\<close>, the session is reset: the state goes
  back to \<open>ControlInvitation\<close> and the token is zeroed.
\<close>

theorem send_failure_resets_counterexample:
  "m_State invited_on_MIDI = MIDIInvitation \<and>
   m_nInitiatorToken invited_on_MIDI = 0xDEADBEEF \<and>
   SendToResult (would_block (quiet 2000)) SendAccept = - 1 \<and>
   MIDIInvitationState invited_on_MIDI (would_block (quiet 2000)) =
     Next (Reset invited_on_MIDI)
       [SendTo m_pControlSocket 0xC000020A 5005
          [0xFF, 0xFF, 0x4F, 0x4B, 0, 0, 0, 2, 0xDE, 0xAD, 0xBE, 0xEF, 0x01, 0x23, 0x45, 0x67,
           0x6D, 0x74, 0x33, 0x32, 0x2D, 0x70, 0x69, 0]] \<and>
   m_State (Reset invited_on_MIDI) = ControlInvitation \<and>
   m_nInitiatorToken (Reset invited_on_MIDI) = 0"
proof -
  have "ParseInvitationPacket (m_MIDIBuffer invited_on_MIDI)
       (nat (m_nMIDIResult invited_on_MIDI)) =
     Accept \<lparr>inv_nSignature = 0xFFFF, inv_nCommand = 0x494E, inv_nVersion = 2,
             inv_nInitiatorToken = 0xDEADBEEF, inv_nSSRC = 0xCAFEBABE,
             inv_Name = [0x68, 0x6F, 0x73, 0x74] @ replicate 252 0\<rparr>"
    by (simp add: invited_on_MIDI_def Constructor_def ParseInvitationPacket_frame_IN)
  then show ?thesis
    by (simp add: MIDIInvitationState_def SendAcceptInvitationPacket_def SendPacket_def
        strncpy_def strlen_def c_str_def bytes_of_def Let_def would_block_def quiet_def
        htons_def htonl_def AppleMIDISignature_def AppleMIDIVersion_def InvitationAccepted_def
        CommandWord_def Reset_def)
      (simp add: invited_on_MIDI_def Constructor_def peer_ip_def)
qed

section \<open>The order of the invitations\<close>

lemma ControlInvitationState_State:
  "ControlInvitationState s e = Next s' sent \<Longrightarrow> m_State s' = m_State s \<or> m_State s' = MIDIInvitation"
  by (auto simp: ControlInvitationState_def Let_def split: if_splits parse.splits)

lemma Iteration_from_ControlInvitation:
  assumes "Iteration s e = Next s' sent" "m_State s = ControlInvitation"
  shows "m_State s' \<noteq> Connected"
  using assms
  by (auto simp: Iteration_def Let_def split: prod.splits if_splits
      dest!: ControlInvitationState_State)

lemma Run_0: "Run s es ! 0 = s"
  by (cases es) simp_all

lemma Run_step:
  "Suc k < length (Run s es) \<Longrightarrow>
   k < length es \<and> (\<exists>sent. Iteration (Run s es ! k) (es ! k) = Next (Run s es ! Suc k) sent)"
proof (induction es arbitrary: s k)
  case Nil
  then show ?case by simp
next
  case (Cons e es)
  show ?case
  proof (cases "Iteration s e")
    case (Next s' sent)
    show ?thesis
    proof (cases k)
      case 0
      with Next show ?thesis by (auto simp: Run_0)
    next
      case (Suc n)
      with Cons.prems Next have "Suc n < length (Run s' es)" by simp
      from Cons.IH[OF this] Suc Next show ?thesis by simp
    qed
  qed (use Cons.prems in simp_all)
qed

lemma accepted_iff: "accepted r \<longleftrightarrow> (\<exists>x. r = Accept x)"
  by (cases r) (simp_all add: accepted_def)

lemma Iteration_Received:
  assumes "Iteration s e = Next s' sent"
  shows "m_State (Received s e) = m_State s"
    and "(case m_State s of
            ControlInvitation \<Rightarrow> ControlInvitationState (Received s e) e
          | MIDIInvitation \<Rightarrow> MIDIInvitationState (Received s e) e
          | Connected \<Rightarrow> ConnectedState (Received s e) e) = Next s' sent"
proof -
  obtain r1 buf1 ip1 port1 where c:
    "ReceiveFrom (m_ControlBuffer s) (m_InitiatorIPAddress s) (m_nInitiatorControlPort s)
       (ControlReceive e) = (r1, buf1, ip1, port1)"
    by (metis prod_cases4)
  obtain r2 buf2 ip2 port2 where m:
    "ReceiveFrom (m_MIDIBuffer s) ip1 (m_nInitiatorMIDIPort s) (MIDIReceive e) =
       (r2, buf2, ip2, port2)"
    by (metis prod_cases4)
  have r: "Received s e =
      s\<lparr>m_nControlResult := r1, m_ControlBuffer := buf1, m_nInitiatorControlPort := port1,
         m_nMIDIResult := r2, m_MIDIBuffer := buf2, m_InitiatorIPAddress := ip2,
         m_nInitiatorMIDIPort := port2\<rparr>"
    by (simp add: Received_def c m)
  show "m_State (Received s e) = m_State s"
    by (simp add: r)
  from assms have "\<not> r1 < 0" "\<not> r2 < 0"
    by (auto simp: Iteration_def c m Let_def split: if_splits)
  with assms show "(case m_State s of
            ControlInvitation \<Rightarrow> ControlInvitationState (Received s e) e
          | MIDIInvitation \<Rightarrow> MIDIInvitationState (Received s e) e
          | Connected \<Rightarrow> ConnectedState (Received s e) e) = Next s' sent"
    by (cases "m_State s") (simp_all add: Iteration_def c m r Let_def)
qed

lemma ControlInvitationState_accepts_iff:
  assumes "m_State s = ControlInvitation"
  shows "map_option m_State (next_state (ControlInvitationState s e)) = Some MIDIInvitation \<longleftrightarrow>
     m_nControlResult s \<noteq> 0 \<and>
     (\<exists>InvitationPacket.
        ParseInvitationPacket (m_ControlBuffer s) (nat (m_nControlResult s)) =
          Accept InvitationPacket) \<and>
     \<not> send_failed (SendToResult e SendAccept) 24"
  using assms
  by (auto simp: ControlInvitationState_def next_state_def Let_def
      SendAcceptInvitationPacket_result split: parse.splits)

lemma MIDIInvitationState_accepts_iff:
  assumes "m_State s = MIDIInvitation"
  shows "map_option m_State (next_state (MIDIInvitationState s e)) = Some Connected \<longleftrightarrow>
     0 < m_nMIDIResult s \<and>
     (\<exists>InvitationPacket.
        ParseInvitationPacket (m_MIDIBuffer s) (nat (m_nMIDIResult s)) = Accept InvitationPacket) \<and>
     \<not> send_failed (SendToResult e SendAccept) 24"
  using assms
  by (auto simp: MIDIInvitationState_def next_state_def Let_def Reset_def
      SendAcceptInvitationPacket_result split: parse.splits)

lemma Iteration_control_accept:
  assumes "Iteration s e = Next s' sent"
    and "m_State s = ControlInvitation" "m_State s' = MIDIInvitation"
  shows "control_invitation_accepted (Received s e) e"
proof -
  from Iteration_Received[OF assms(1)] assms(2)
  have r: "m_State (Received s e) = ControlInvitation"
    "ControlInvitationState (Received s e) e = Next s' sent"
    by simp_all
  from r(2) assms(3)
  have "map_option m_State (next_state (ControlInvitationState (Received s e) e)) =
      Some MIDIInvitation"
    by (simp add: next_state_def)
  with ControlInvitationState_accepts_iff[OF r(1)] show ?thesis
    by (simp add: control_invitation_accepted_def accepted_iff)
qed

lemma Iteration_MIDI_accept:
  assumes "Iteration s e = Next s' sent"
    and "m_State s = MIDIInvitation" "m_State s' = Connected"
  shows "MIDI_invitation_accepted (Received s e) e"
proof -
  from Iteration_Received[OF assms(1)] assms(2)
  have r: "m_State (Received s e) = MIDIInvitation"
    "MIDIInvitationState (Received s e) e = Next s' sent"
    by simp_all
  from r(2) assms(3)
  have "map_option m_State (next_state (MIDIInvitationState (Received s e) e)) =
      Some Connected"
    by (simp add: next_state_def)
  with MIDIInvitationState_accepts_iff[OF r(1)] show ?thesis
    by (simp add: MIDI_invitation_accepted_def accepted_iff)
qed

lemma first_entry:
  fixes st :: "nat \<Rightarrow> TState"
  assumes "st a \<noteq> Connected" "st b = Connected" "a \<le> b"
  shows "\<exists>m. a \<le> m \<and> m < b \<and> st m \<noteq> Connected \<and> st (Suc m) = Connected"
  using assms
proof (induction b)
  case 0
  then show ?case by simp
next
  case (Suc n)
  from Suc.prems have an: "a \<le> n" by (cases "a = Suc n") auto
  show ?case
  proof (cases "st n = Connected")
    case True
    from Suc.IH[OF Suc.prems(1) True an] show ?thesis by (auto simp: less_Suc_eq)
  next
    case False
    with Suc.prems an show ?thesis by (intro exI[of _ n]) simp
  qed
qed

lemma session_opened:
  fixes st :: "nat \<Rightarrow> TState"
  assumes start: "st 0 = ControlInvitation"
    and step: "\<And>k. k < i \<Longrightarrow> st k = ControlInvitation \<Longrightarrow> st (Suc k) \<noteq> Connected"
    and now: "st i \<noteq> ControlInvitation"
  shows "\<exists>j<i. st j = ControlInvitation \<and> st (Suc j) = MIDIInvitation \<and>
           (\<forall>k. j < k \<and> k \<le> i \<longrightarrow> st k \<noteq> ControlInvitation)"
  using step now
proof (induction i)
  case 0
  with start show ?case by simp
next
  case (Suc n)
  show ?case
  proof (cases "st n = ControlInvitation")
    case True
    with Suc.prems(1)[of n] have "st (Suc n) \<noteq> Connected" by simp
    with Suc.prems(2) have "st (Suc n) = MIDIInvitation" by (cases "st (Suc n)") auto
    with True show ?thesis by (intro exI[of _ n]) (auto simp: le_Suc_eq)
  next
    case False
    with Suc.IH Suc.prems(1) obtain j where j: "j < n" "st j = ControlInvitation"
      "st (Suc j) = MIDIInvitation" "\<forall>k. j < k \<and> k \<le> n \<longrightarrow> st k \<noteq> ControlInvitation"
      by (metis less_Suc_eq)
    with Suc.prems(2) show ?thesis
      by (intro exI[of _ j]) (auto simp: le_Suc_eq)
  qed
qed


lemmas run_defs =
  Iteration_def ReceiveFrom_def ControlInvitationState_def MIDIInvitationState_def
  ParseInvitationPacket_def strncpy_def strncpy_overruns_def
  SendAcceptInvitationPacket_def SendPacket_def strlen_def c_str_def bytes_of_def
  invitation_on_control_def invitation_on_MIDI_def stranger_on_MIDI_def
  frame_IN_def frame_IN_stranger_def stranger_ip_def

lemma handshake_states:
  "map m_State (Run (Constructor 1600) [invitation_on_control, invitation_on_MIDI]) =
     [ControlInvitation, MIDIInvitation, Connected]"
  by (simp add: run_defs scenario_defs codec_defs nth_append Let_def)

text \<open>
  Claim C6, as the code has it. In every execution of \<open>Run\<close> from a participant in
  \<open>ControlInvitation\<close>, a state \<open>Connected\<close> comes after an iteration \<open>j\<close> in which the
  invitation on the control port was accepted (a datagram arrived there, decoded as an
  invitation, and the acceptance was sent), taking the participant from
  \<open>ControlInvitation\<close> to \<open>MIDIInvitation\<close>, and a later iteration \<open>m\<close> in which the
  invitation on the MIDI port was accepted in the same way, taking it from
  \<open>MIDIInvitation\<close> to \<open>Connected\<close>, with no return to \<open>ControlInvitation\<close> in between. In
  \<open>ControlInvitation\<close> the participant moves to \<open>MIDIInvitation\<close> exactly when the
  invitation on the control port is accepted, and in \<open>MIDIInvitation\<close> to \<open>Connected\<close>
  exactly when the invitation on the MIDI port is: where that one comes from, and its
  token and SSRC, play no part.
\<close>

theorem data_invitation_after_control_invitation:
  "(m_State s0 = ControlInvitation \<and> i < length (Run s0 es) \<and>
    m_State (Run s0 es ! i) = Connected \<longrightarrow>
      (\<exists>j m. Suc j < i \<and> j < m \<and> m < i \<and> m < length es \<and>
           m_State (Run s0 es ! j) = ControlInvitation \<and>
           m_State (Run s0 es ! Suc j) = MIDIInvitation \<and>
           control_invitation_accepted (Received (Run s0 es ! j) (es ! j)) (es ! j) \<and>
           m_State (Run s0 es ! m) = MIDIInvitation \<and>
           m_State (Run s0 es ! Suc m) = Connected \<and>
           MIDI_invitation_accepted (Received (Run s0 es ! m) (es ! m)) (es ! m) \<and>
           (\<forall>k. j < k \<and> k \<le> i \<longrightarrow> m_State (Run s0 es ! k) \<noteq> ControlInvitation))) \<and>
   (m_State s = ControlInvitation \<longrightarrow>
      (map_option m_State (next_state (ControlInvitationState s e)) = Some MIDIInvitation \<longleftrightarrow>
         m_nControlResult s \<noteq> 0 \<and>
         (\<exists>InvitationPacket.
            ParseInvitationPacket (m_ControlBuffer s) (nat (m_nControlResult s)) =
              Accept InvitationPacket) \<and>
         \<not> send_failed (SendToResult e SendAccept) 24)) \<and>
   (m_State s = MIDIInvitation \<longrightarrow>
      (map_option m_State (next_state (MIDIInvitationState s e)) = Some Connected \<longleftrightarrow>
         0 < m_nMIDIResult s \<and>
         (\<exists>InvitationPacket.
            ParseInvitationPacket (m_MIDIBuffer s) (nat (m_nMIDIResult s)) =
              Accept InvitationPacket) \<and>
         \<not> send_failed (SendToResult e SendAccept) 24))"
proof (intro conjI impI)
  assume a: "m_State s0 = ControlInvitation \<and> i < length (Run s0 es) \<and>
    m_State (Run s0 es ! i) = Connected"
  define st where "st k = m_State (Run s0 es ! k)" for k
  have iter: "k < length es \<and>
      (\<exists>sent. Iteration (Run s0 es ! k) (es ! k) = Next (Run s0 es ! Suc k) sent)"
    if "k < i" for k
  proof -
    from that a have "Suc k < length (Run s0 es)" by simp
    then show ?thesis by (rule Run_step)
  qed
  have start: "st 0 = ControlInvitation"
    using a by (simp add: st_def Run_0)
  have step: "st (Suc k) \<noteq> Connected" if "k < i" "st k = ControlInvitation" for k
  proof -
    from iter[OF that(1)] obtain sent'
      where "Iteration (Run s0 es ! k) (es ! k) = Next (Run s0 es ! Suc k) sent'" by blast
    from Iteration_from_ControlInvitation[OF this] that(2) show ?thesis
      by (simp add: st_def)
  qed
  have now: "st i \<noteq> ControlInvitation"
    using a by (simp add: st_def)
  from session_opened[of st i, OF start step now] obtain j where j: "j < i"
    "st j = ControlInvitation" "st (Suc j) = MIDIInvitation"
    "\<forall>k. j < k \<and> k \<le> i \<longrightarrow> st k \<noteq> ControlInvitation"
    by blast
  have "Suc j \<noteq> i" using j(3) a by (auto simp: st_def)
  with j(1) have ji: "Suc j < i" by simp
  from iter[OF j(1)] obtain sentj
    where "Iteration (Run s0 es ! j) (es ! j) = Next (Run s0 es ! Suc j) sentj" by blast
  from Iteration_control_accept[OF this] j(2,3)
  have cj: "control_invitation_accepted (Received (Run s0 es ! j) (es ! j)) (es ! j)"
    by (simp add: st_def)
  have "st (Suc j) \<noteq> Connected" "st i = Connected" "Suc j \<le> i"
    using j(3) a ji by (simp_all add: st_def)
  from first_entry[OF this] obtain m where m: "Suc j \<le> m" "m < i"
    "st m \<noteq> Connected" "st (Suc m) = Connected"
    by blast
  from j(4) m(1,2) have "st m \<noteq> ControlInvitation" by simp
  with m(3) have mm: "st m = MIDIInvitation" by (cases "st m") auto
  from iter[OF m(2)] obtain sentm where ml: "m < length es"
    and "Iteration (Run s0 es ! m) (es ! m) = Next (Run s0 es ! Suc m) sentm" by blast
  from Iteration_MIDI_accept[OF this(2)] mm m(4)
  have cm: "MIDI_invitation_accepted (Received (Run s0 es ! m) (es ! m)) (es ! m)"
    by (simp add: st_def)
  from m(1) have jm: "j < m" by simp
  show "\<exists>j m. Suc j < i \<and> j < m \<and> m < i \<and> m < length es \<and>
      m_State (Run s0 es ! j) = ControlInvitation \<and>
      m_State (Run s0 es ! Suc j) = MIDIInvitation \<and>
      control_invitation_accepted (Received (Run s0 es ! j) (es ! j)) (es ! j) \<and>
      m_State (Run s0 es ! m) = MIDIInvitation \<and>
      m_State (Run s0 es ! Suc m) = Connected \<and>
      MIDI_invitation_accepted (Received (Run s0 es ! m) (es ! m)) (es ! m) \<and>
      (\<forall>k. j < k \<and> k \<le> i \<longrightarrow> m_State (Run s0 es ! k) \<noteq> ControlInvitation)"
    using ji jm m(2) ml j(2,3,4) cj mm m(4) cm unfolding st_def
    by (intro exI[of _ j] exI[of _ m]) simp
next
  assume "m_State s = ControlInvitation"
  then show "map_option m_State (next_state (ControlInvitationState s e)) = Some MIDIInvitation \<longleftrightarrow>
     m_nControlResult s \<noteq> 0 \<and>
     (\<exists>InvitationPacket.
        ParseInvitationPacket (m_ControlBuffer s) (nat (m_nControlResult s)) =
          Accept InvitationPacket) \<and>
     \<not> send_failed (SendToResult e SendAccept) 24"
    by (rule ControlInvitationState_accepts_iff)
next
  assume "m_State s = MIDIInvitation"
  then show "map_option m_State (next_state (MIDIInvitationState s e)) = Some Connected \<longleftrightarrow>
     0 < m_nMIDIResult s \<and>
     (\<exists>InvitationPacket.
        ParseInvitationPacket (m_MIDIBuffer s) (nat (m_nMIDIResult s)) = Accept InvitationPacket) \<and>
     \<not> send_failed (SendToResult e SendAccept) 24"
    by (rule MIDIInvitationState_accepts_iff)
qed

text \<open>
  Scenario 1: the invitation on the control port, then on the MIDI port, takes the
  participant through \<open>MIDIInvitation\<close> to \<open>Connected\<close>; each iteration accepts its
  invitation.
\<close>

theorem data_invitation_after_control_invitation_witness:
  "m_State (Constructor 1600) = ControlInvitation \<and>
   map m_State (Run (Constructor 1600) [invitation_on_control, invitation_on_MIDI]) =
     [ControlInvitation, MIDIInvitation, Connected] \<and>
   control_invitation_accepted
     (Received (Constructor 1600) invitation_on_control) invitation_on_control \<and>
   MIDI_invitation_accepted
     (Received (Run (Constructor 1600) [invitation_on_control, invitation_on_MIDI] ! 1)
        invitation_on_MIDI) invitation_on_MIDI \<and>
   m_State invited_on_control = ControlInvitation \<and>
   m_nControlResult invited_on_control \<noteq> 0 \<and>
   map_option m_State (next_state (ControlInvitationState invited_on_control (quiet 2000))) =
     Some MIDIInvitation \<and>
   m_State invited_on_MIDI = MIDIInvitation \<and>
   0 < m_nMIDIResult invited_on_MIDI \<and>
   \<not> send_failed (SendToResult (quiet 2000) SendAccept) 24 \<and>
   map_option m_State (next_state (MIDIInvitationState invited_on_MIDI (quiet 2000))) =
     Some Connected"
proof -
  let ?es = "[invitation_on_control, invitation_on_MIDI]"
  let ?tr = "Run (Constructor 1600) ?es"
  have r: "length ?tr = 3" "m_State (?tr ! 0) = ControlInvitation"
    "m_State (?tr ! 1) = MIDIInvitation" "m_State (?tr ! 2) = Connected"
    using arg_cong[OF handshake_states, of length]
      arg_cong[OF handshake_states, of "\<lambda>l. l ! 0"]
      arg_cong[OF handshake_states, of "\<lambda>l. l ! 1"]
      arg_cong[OF handshake_states, of "\<lambda>l. l ! 2"]
    by simp_all
  have c0: "m_State (Constructor 1600) = ControlInvitation"
    by (simp add: Constructor_def)
  have c: "m_State invited_on_control = ControlInvitation"
    "m_nControlResult invited_on_control \<noteq> 0"
    "ParseInvitationPacket (m_ControlBuffer invited_on_control)
       (nat (m_nControlResult invited_on_control)) =
     Accept \<lparr>inv_nSignature = 0xFFFF, inv_nCommand = 0x494E, inv_nVersion = 2,
             inv_nInitiatorToken = 0xDEADBEEF, inv_nSSRC = 0xCAFEBABE,
             inv_Name = [0x68, 0x6F, 0x73, 0x74] @ replicate 252 0\<rparr>"
    by (simp_all add: invited_on_control_def Constructor_def ParseInvitationPacket_frame_IN)
  have m: "m_State invited_on_MIDI = MIDIInvitation" "0 < m_nMIDIResult invited_on_MIDI"
    "ParseInvitationPacket (m_MIDIBuffer invited_on_MIDI)
       (nat (m_nMIDIResult invited_on_MIDI)) =
     Accept \<lparr>inv_nSignature = 0xFFFF, inv_nCommand = 0x494E, inv_nVersion = 2,
             inv_nInitiatorToken = 0xDEADBEEF, inv_nSSRC = 0xCAFEBABE,
             inv_Name = [0x68, 0x6F, 0x73, 0x74] @ replicate 252 0\<rparr>"
    by (simp_all add: invited_on_MIDI_def Constructor_def ParseInvitationPacket_frame_IN)
  have f: "\<not> send_failed (SendToResult (quiet 2000) SendAccept) 24"
    by (simp add: send_failed_def quiet_def)
  have h: "m_State (Constructor 1600) = ControlInvitation \<and> 2 < length ?tr \<and>
      m_State (?tr ! 2) = Connected"
    using c0 r(1,4) by (simp only:) simp
  from data_invitation_after_control_invitation
    [of "Constructor 1600" 2 ?es invited_on_control "quiet 2000",
      THEN conjunct1, THEN mp, OF h]
  obtain j k where jk: "Suc j < 2" "j < k" "k < 2"
    "control_invitation_accepted (Received (?tr ! j) (?es ! j)) (?es ! j)"
    "MIDI_invitation_accepted (Received (?tr ! k) (?es ! k)) (?es ! k)"
    by blast
  from jk(1,2,3) have "j = 0" "k = 1" by simp_all
  moreover have "?es ! 0 = invitation_on_control" "?es ! 1 = invitation_on_MIDI"
    "?tr ! 0 = Constructor 1600"
    by (simp_all only: Run_0 nth_Cons_0 One_nat_def nth_Cons_Suc)
  ultimately have a: "control_invitation_accepted
      (Received (Constructor 1600) invitation_on_control) invitation_on_control"
    "MIDI_invitation_accepted (Received (?tr ! 1) invitation_on_MIDI) invitation_on_MIDI"
    using jk(4,5) by (simp_all only:)
  from data_invitation_after_control_invitation
    [of "Constructor 1600" 2 ?es invited_on_control "quiet 2000",
      THEN conjunct2, THEN conjunct1, THEN mp, OF c(1)] c(2,3) f
  have 1: "map_option m_State (next_state (ControlInvitationState invited_on_control (quiet 2000))) =
      Some MIDIInvitation"
    by blast
  from data_invitation_after_control_invitation
    [of "Constructor 1600" 2 ?es invited_on_MIDI "quiet 2000",
      THEN conjunct2, THEN conjunct2, THEN mp, OF m(1)] m(2,3) f
  have 2: "map_option m_State (next_state (MIDIInvitationState invited_on_MIDI (quiet 2000))) =
      Some Connected"
    by blast
  show ?thesis
    by (intro conjI c0 handshake_states a c(1,2) m(1,2) f 1 2)
qed

text \<open>
  Against C6 as stated: after the control-port invitation of 192.0.2.10 is accepted, the
  invitation of 198.51.100.7 on the MIDI port is accepted as well. The participant is
  connected, with the address of the second host and the SSRC of the first.
\<close>

theorem data_invitation_from_stranger_counterexample:
  "MIDIReceive stranger_on_MIDI = Datagram frame_IN_stranger 0xC6336407 6001 \<and>
   map m_State (Run (Constructor 1600) [invitation_on_control, stranger_on_MIDI]) =
     [ControlInvitation, MIDIInvitation, Connected] \<and>
   map m_InitiatorIPAddress (Run (Constructor 1600) [invitation_on_control, stranger_on_MIDI]) =
     [0, 0xC000020A, 0xC6336407] \<and>
   map m_nInitiatorSSRC (Run (Constructor 1600) [invitation_on_control, stranger_on_MIDI]) =
     [0, 0xCAFEBABE, 0xCAFEBABE]"
  by (simp add: run_defs scenario_defs codec_defs nth_append Let_def)

end
